theory Spec2Isabelle
  imports Main
begin

section \<open>Audio Transcriber: the size router and the chunked transcription pipeline\<close>

text \<open>
  A shallow embedding of \<^verbatim>\<open>Audio Transcriber/audio_transcriber_streamlit.py\<close>:
  the class \<^verbatim>\<open>AudioTranscriber\<close> and the helper \<^verbatim>\<open>get_default_transcript_path\<close>.
  Python exceptions are values of the type \<open>error\<close>; a function that can raise returns
  \<open>error + 'r\<close>, with \<open>Inl\<close> for the exception. The Streamlit page (\<^verbatim>\<open>main\<close>) and
  \<^verbatim>\<open>check_ffmpeg\<close> only call into this core and are left out. What the libraries do
  (pydub, pathlib, the file system, the transcription service) is either written out as
  the library documents it or taken as a parameter.
\<close>

subsection \<open>Exceptions\<close>

datatype error =
    FileNotFoundError string
  | ZeroDivisionError
  | CouldntDecodeError string
  | CouldntEncodeError string
  | OSError string
  | APIError string
  | CallbackError string

subsection \<open>Decoded audio\<close>

text \<open>
  A pydub \<^verbatim>\<open>AudioSegment\<close>, reduced to what the program reads: the three properties
  of the bitrate formula and the samples. pydub measures and slices a segment in
  milliseconds, so the samples are kept as a list with one element for each millisecond:
  \<^verbatim>\<open>len(audio)\<close> is the length of that list and \<^verbatim>\<open>audio[a:b]\<close> is a sublist.
\<close>

record 'a audio_segment =
  frame_rate :: int
  frame_width :: int
  channels :: int
  millis :: "'a list"

definition len :: "'a audio_segment \<Rightarrow> int" where
  "len audio = int (length (millis audio))"

text \<open>\<^verbatim>\<open>audio[a:b]\<close> for \<open>0 \<le> a\<close>; Python clips both ends to the length.\<close>

definition slice :: "'a audio_segment \<Rightarrow> int \<Rightarrow> int \<Rightarrow> 'a audio_segment" where
  "slice audio a b = audio\<lparr>millis := take (nat (b - a)) (drop (nat a) (millis audio))\<rparr>"

subsection \<open>Chunk length and splitting\<close>

text \<open>
  \<^verbatim>\<open>int(x / y)\<close> on Python integers: true division raises \<open>ZeroDivisionError\<close> on
  a zero divisor, whatever the dividend, and \<^verbatim>\<open>int\<close> truncates the quotient towards
  zero. Python computes the quotient as a correctly rounded double. While the dividend is
  below \<open>2 ^ 52\<close> in absolute value, the truncation of that double is the truncation
  of the exact quotient, for every divisor, which is what is written here. For a larger
  dividend the two can differ (a quotient just below an integer can be rounded up to it,
  and a quotient too large for a double raises \<^verbatim>\<open>OverflowError\<close>), so the claim below
  about when the chunk length is positive is stated for dividends below \<open>2 ^ 52\<close>.
  The program divides \<open>chunk_size_mb * 8388608000\<close>, which is 167772160000 for the
  20 MiB it passes.
\<close>

definition int_truediv :: "int \<Rightarrow> int \<Rightarrow> error + int" where
  "int_truediv x y =
     (if y = 0 then Inl ZeroDivisionError
      else Inr (sgn x * sgn y * (\<bar>x\<bar> div \<bar>y\<bar>)))"

text \<open>Lines 72 to 74 of \<^verbatim>\<open>split_audio_into_chunks\<close>: the chunk length in milliseconds.\<close>

definition bitrate :: "'a audio_segment \<Rightarrow> int" where
  "bitrate audio = frame_rate audio * frame_width audio * 8 * channels audio"

definition chunk_length_ms :: "'a audio_segment \<Rightarrow> int \<Rightarrow> error + int" where
  "chunk_length_ms audio chunk_size_mb =
     (let chunk_size_bytes = chunk_size_mb * 1024 * 1024
      in int_truediv (chunk_size_bytes * 8 * 1000) (bitrate audio))"

text \<open>
  Modelled from the spec: \<^verbatim>\<open>make_chunks\<close> is imported from \<^verbatim>\<open>pydub.utils\<close> and is not
  part of the sources. The spec's Split operation partitions the audio into an ordered
  sequence of chunks of the chunk length, the last one holding the remainder. The library
  computes it as \<^verbatim>\<open>ceil(len(audio) / float(chunk_length))\<close> slices
  \<^verbatim>\<open>audio[i * chunk_length : (i + 1) * chunk_length]\<close>, which is what is written here
  (the ceiling of the quotient of two integers is \<open>- (- x div y)\<close>); a chunk length of
  zero makes that division raise.
\<close>

definition make_chunks :: "'a audio_segment \<Rightarrow> int \<Rightarrow> error + 'a audio_segment list" where
  "make_chunks audio chunk_length =
     (if chunk_length = 0 then Inl ZeroDivisionError
      else
        let number_of_chunks = - (- len audio div chunk_length)
        in Inr (map (\<lambda>i. slice audio (int i * chunk_length) ((int i + 1) * chunk_length))
                  [0 ..< nat number_of_chunks]))"

definition split_audio_into_chunks ::
  "'a audio_segment \<Rightarrow> int \<Rightarrow> error + 'a audio_segment list" where
  "split_audio_into_chunks audio chunk_size_mb =
     (case chunk_length_ms audio chunk_size_mb of
        Inl e \<Rightarrow> Inl e
      | Inr chunk_length \<Rightarrow> make_chunks audio chunk_length)"

subsection \<open>Strings\<close>

text \<open>
  \<^verbatim>\<open>sep.join(xs)\<close>: the items in order, with the separator between neighbours.
\<close>

fun str_join :: "string \<Rightarrow> string list \<Rightarrow> string" where
  "str_join sep [] = []"
| "str_join sep [x] = x"
| "str_join sep (x # y # ys) = x @ sep @ str_join sep (y # ys)"

text \<open>\<^verbatim>\<open>s.split(c)\<close> for a one-character separator: never an empty list.\<close>

fun split_on :: "char \<Rightarrow> string \<Rightarrow> string list" where
  "split_on c [] = [[]]"
| "split_on c (x # xs) =
     (if x = c then [] # split_on c xs
      else (case split_on c xs of
              [] \<Rightarrow> [[x]]
            | p # ps \<Rightarrow> (x # p) # ps))"

text \<open>
  \<^verbatim>\<open>s.rfind(c)\<close>: the index of the last occurrence, or \<open>-1\<close>. The search is
  written with an optional index first.
\<close>

fun rindex :: "char \<Rightarrow> string \<Rightarrow> nat option" where
  "rindex c [] = None"
| "rindex c (x # xs) =
     (case rindex c xs of
        Some i \<Rightarrow> Some (Suc i)
      | None \<Rightarrow> if x = c then Some 0 else None)"

definition rfind :: "char \<Rightarrow> string \<Rightarrow> int" where
  "rfind c s = (case rindex c s of None \<Rightarrow> - 1 | Some i \<Rightarrow> int i)"

text \<open>\<^verbatim>\<open>s.lower()\<close>, on the ASCII letters.\<close>

definition lower_char :: "char \<Rightarrow> char" where
  "lower_char c =
     (case map_of (zip ''ABCDEFGHIJKLMNOPQRSTUVWXYZ'' ''abcdefghijklmnopqrstuvwxyz'') c of
        Some l \<Rightarrow> l
      | None \<Rightarrow> c)"

definition lower :: "string \<Rightarrow> string" where
  "lower s = map lower_char s"

text \<open>\<^verbatim>\<open>s.replace(c, '')\<close> for a one-character \<open>c\<close>.\<close>

definition remove_char :: "char \<Rightarrow> string \<Rightarrow> string" where
  "remove_char c s = filter (\<lambda>x. x \<noteq> c) s"

text \<open>\<^verbatim>\<open>s.startswith(p)\<close>.\<close>

definition startswith :: "string \<Rightarrow> string \<Rightarrow> bool" where
  "startswith s p = (take (length p) s = p)"

text \<open>\<^verbatim>\<open>str(n)\<close> for a natural number, as an f-string formats it.\<close>

definition digit :: "nat \<Rightarrow> char" where
  "digit d = ''0123456789'' ! d"

fun str_nat :: "nat \<Rightarrow> string" where
  "str_nat n = (if n < 10 then [digit n] else str_nat (n div 10) @ [digit (n mod 10)])"

declare str_nat.simps [simp del]

subsection \<open>Paths\<close>

text \<open>
  \<^verbatim>\<open>pathlib.Path\<close> on a POSIX system, as far as the program uses it. A path is parsed
  into its root (empty, one slash, or two slashes for exactly two leading slashes) and
  its components; empty components and single dots are dropped. The suffix of a name is
  what follows its last dot, the dot included, unless that dot is the first or the last
  character of the name.
\<close>

record pure_path =
  root :: string
  parts :: "string list"

definition splitroot :: "string \<Rightarrow> string \<times> string" where
  "splitroot p =
     (if take 1 p \<noteq> ''/'' then ([], p)
      else if take 1 (drop 1 p) \<noteq> ''/'' \<or> take 1 (drop 2 p) = ''/'' then (''/'', drop 1 p)
      else (''//'', drop 2 p))"

definition Path :: "string \<Rightarrow> pure_path" where
  "Path p =
     \<lparr>root = fst (splitroot p),
      parts = filter (\<lambda>x. x \<noteq> [] \<and> x \<noteq> ''.'') (split_on CHR ''/'' (snd (splitroot p)))\<rparr>"

definition path_str :: "pure_path \<Rightarrow> string" where
  "path_str P =
     (if root P = [] \<and> parts P = [] then ''.''
      else root P @ str_join ''/'' (parts P))"

definition name :: "pure_path \<Rightarrow> string" where
  "name P = (if parts P = [] then [] else last (parts P))"

definition suffix :: "pure_path \<Rightarrow> string" where
  "suffix P =
     (let i = rfind CHR ''.'' (name P)
      in if 0 < i \<and> i < int (length (name P)) - 1 then drop (nat i) (name P) else [])"

definition stem :: "pure_path \<Rightarrow> string" where
  "stem P =
     (let i = rfind CHR ''.'' (name P)
      in if 0 < i \<and> i < int (length (name P)) - 1 then take (nat i) (name P) else name P)"

definition parent :: "pure_path \<Rightarrow> pure_path" where
  "parent P = (if parts P = [] then P else P\<lparr>parts := butlast (parts P)\<rparr>)"

text \<open>\<^verbatim>\<open>P / key\<close>: a key with a root replaces the path, any other is appended.\<close>

definition truediv :: "pure_path \<Rightarrow> string \<Rightarrow> pure_path" where
  "truediv P key =
     (if root (Path key) \<noteq> [] then Path key
      else \<lparr>root = root P, parts = parts P @ parts (Path key)\<rparr>)"

definition get_default_transcript_path :: "string \<Rightarrow> string" where
  "get_default_transcript_path audio_file_path =
     (let audio_path = Path audio_file_path;
          transcript_name = stem audio_path @ ''_transcript.txt''
      in path_str (truediv (parent audio_path) transcript_name))"

subsection \<open>The world outside the program\<close>

text \<open>
  What the program cannot compute is a parameter. \<open>getsize\<close> is \<^verbatim>\<open>os.path.getsize\<close>,
  \<open>read_file\<close> is \<^verbatim>\<open>open(path, 'rb')\<close> for a file outside the working directory,
  \<open>from_file\<close> is \<^verbatim>\<open>AudioSegment.from_file(path, format=...)\<close>, \<open>export_mp3\<close> is the
  encoding done by \<^verbatim>\<open>chunk.export(..., format="mp3")\<close> (when it fails it may leave a
  partial file behind), \<open>transcriptions_create\<close> is the call of the transcription service,
  which may answer the same bytes differently from one call to the next and so takes the
  number of calls made before, and \<open>format_mb\<close> is the text of
  \<^verbatim>\<open>file_size/(1024*1024)\<close> with two decimals, a floating-point computation.

  The operations on the working directory can fail for reasons outside the program
  (permissions, a file or a symbolic link in the place of the directory, a full or
  read-only disk). \<open>mkdir_error\<close> is what \<^verbatim>\<open>temp_dir.mkdir(exist_ok=True)\<close> raises when
  there is no such directory yet, if it raises; \<open>unlink_error\<close> is what
  \<^verbatim>\<open>temp_file.unlink()\<close> raises on a file that exists, if it raises;
  \<open>rmtree_error\<close> is what \<^verbatim>\<open>shutil.rmtree(temp_dir)\<close> raises on a directory with the
  given files, if it raises, together with the files that are still there afterwards
  (a failing \<^verbatim>\<open>rmtree\<close> leaves the directory and may have removed some of its files).
\<close>

record ('a, 'c) env =
  getsize :: "string \<Rightarrow> error + int"
  read_file :: "string \<Rightarrow> error + 'c"
  from_file :: "string \<Rightarrow> string \<Rightarrow> error + 'a audio_segment"
  export_mp3 :: "'a audio_segment \<Rightarrow> (error \<times> 'c option) + 'c"
  transcriptions_create :: "nat \<Rightarrow> 'c \<Rightarrow> error + string"
  format_mb :: "int \<Rightarrow> string"
  mkdir_error :: "error option"
  unlink_error :: "string \<Rightarrow> error option"
  rmtree_error :: "(string \<Rightarrow> 'c option) \<Rightarrow> (error \<times> (string \<Rightarrow> bool)) option"

text \<open>
  The state the program changes: the working directory \<^verbatim>\<open>temp_audio_chunks\<close> (absent,
  or a map from file names to contents), the number of calls made to the transcription
  service, and the state of the progress observer. \<open>snapshots\<close> is a history variable: the
  states the working directory has been put into, oldest first.
\<close>

type_synonym 'c directory = "string \<Rightarrow> 'c option"

record ('c, 'u) world =
  temp_dir :: "'c directory option"
  api_calls :: nat
  observer :: 'u
  snapshots :: "'c directory option list"

text \<open>
  The progress callback is optional; when present it is called with a status string,
  may change the observer's own state, and, being Python code, may raise.
\<close>

type_synonym 'u callback = "(string \<Rightarrow> 'u \<Rightarrow> error + 'u) option"

text \<open>A statement that can raise: it returns the exception or a value, and the new state.\<close>

type_synonym ('c, 'u, 'r) stmt = "('c, 'u) world \<Rightarrow> (error + 'r) \<times> ('c, 'u) world"

definition seq :: "('c, 'u, 'r) stmt \<Rightarrow> ('r \<Rightarrow> ('c, 'u, 'q) stmt) \<Rightarrow> ('c, 'u, 'q) stmt" where
  "seq m f w = (case m w of (Inl e, w') \<Rightarrow> (Inl e, w') | (Inr x, w') \<Rightarrow> f x w')"

definition ret :: "'r \<Rightarrow> ('c, 'u, 'r) stmt" where
  "ret x w = (Inr x, w)"

definition lift :: "error + 'r \<Rightarrow> ('c, 'u, 'r) stmt" where
  "lift r w = (r, w)"

text \<open>\<^verbatim>\<open>if progress_callback: progress_callback(message)\<close>\<close>

definition notify :: "'u callback \<Rightarrow> string \<Rightarrow> ('c, 'u, unit) stmt" where
  "notify progress_callback message w =
     (case progress_callback of
        None \<Rightarrow> (Inr (), w)
      | Some f \<Rightarrow>
          (case f message (observer w) of
             Inl e \<Rightarrow> (Inl e, w)
           | Inr u \<Rightarrow> (Inr (), w\<lparr>observer := u\<rparr>)))"

text \<open>
  A callback that always returns normally is given by what it does to the observer's
  state; \<open>quiet None\<close> is the absent callback.
\<close>

definition quiet :: "(string \<Rightarrow> 'u \<Rightarrow> 'u) option \<Rightarrow> 'u callback" where
  "quiet h = (case h of None \<Rightarrow> None | Some g \<Rightarrow> Some (\<lambda>message u. Inr (g message u)))"

subsection \<open>The working directory\<close>

definition set_temp_dir :: "'c directory option \<Rightarrow> ('c, 'u) world \<Rightarrow> ('c, 'u) world" where
  "set_temp_dir d w = w\<lparr>temp_dir := d, snapshots := snapshots w @ [d]\<rparr>"

definition temp_dir_name :: string where
  "temp_dir_name = ''temp_audio_chunks''"

text \<open>\<^verbatim>\<open>f"chunk_{i}.mp3"\<close> and \<^verbatim>\<open>str(temp_dir / f"chunk_{i}.mp3")\<close>\<close>

definition chunk_name :: "nat \<Rightarrow> string" where
  "chunk_name i = ''chunk_'' @ str_nat i @ ''.mp3''"

definition temp_file :: "nat \<Rightarrow> string" where
  "temp_file i = temp_dir_name @ ''/'' @ chunk_name i"

text \<open>
  \<^verbatim>\<open>temp_dir.mkdir(exist_ok=True)\<close>: nothing to do when the directory exists; otherwise
  the directory is created, empty, or the call raises and creates nothing.
\<close>

definition mkdir :: "('a, 'c) env \<Rightarrow> ('c, 'u, unit) stmt" where
  "mkdir E w =
     (case temp_dir w of
        None \<Rightarrow>
          (case mkdir_error E of
             None \<Rightarrow> (Inr (), set_temp_dir (Some (\<lambda>n. None)) w)
           | Some e \<Rightarrow> (Inl e, w))
      | Some d \<Rightarrow> (Inr (), w))"

text \<open>\<^verbatim>\<open>chunk.export(temp_file, format="mp3")\<close>\<close>

definition export :: "('a, 'c) env \<Rightarrow> 'a audio_segment \<Rightarrow> nat \<Rightarrow> ('c, 'u, unit) stmt" where
  "export E chunk i w =
     (case temp_dir w of
        None \<Rightarrow> (Inl (FileNotFoundError (temp_file i)), w)
      | Some d \<Rightarrow>
          (case export_mp3 E chunk of
             Inr c \<Rightarrow> (Inr (), set_temp_dir (Some (d(chunk_name i \<mapsto> c))) w)
           | Inl (e, None) \<Rightarrow> (Inl e, w)
           | Inl (e, Some c) \<Rightarrow> (Inl e, set_temp_dir (Some (d(chunk_name i \<mapsto> c))) w)))"

text \<open>
  \<^verbatim>\<open>temp_file.unlink()\<close>: raises when the file is not there; a file that is there is
  removed, or the call raises and the file stays.
\<close>

definition unlink :: "('a, 'c) env \<Rightarrow> nat \<Rightarrow> ('c, 'u, unit) stmt" where
  "unlink E i w =
     (case temp_dir w of
        None \<Rightarrow> (Inl (FileNotFoundError (temp_file i)), w)
      | Some d \<Rightarrow>
          (case d (chunk_name i) of
             None \<Rightarrow> (Inl (FileNotFoundError (temp_file i)), w)
           | Some c \<Rightarrow>
               (case unlink_error E (temp_file i) of
                  None \<Rightarrow> (Inr (), set_temp_dir (Some (d(chunk_name i := None))) w)
                | Some e \<Rightarrow> (Inl e, w))))"

text \<open>
  \<^verbatim>\<open>if temp_dir.exists(): shutil.rmtree(temp_dir)\<close>: the directory and its files are
  removed, or \<^verbatim>\<open>rmtree\<close> raises and the directory stays, with the files it did not get
  to remove.
\<close>

definition rmtree_if_exists :: "('a, 'c) env \<Rightarrow> ('c, 'u, unit) stmt" where
  "rmtree_if_exists E w =
     (case temp_dir w of
        None \<Rightarrow> (Inr (), w)
      | Some d \<Rightarrow>
          (case rmtree_error E d of
             None \<Rightarrow> (Inr (), set_temp_dir None w)
           | Some (e, remains) \<Rightarrow>
               (Inl e, set_temp_dir (Some (\<lambda>n. if remains n then d n else None)) w)))"


text \<open>
  \<^verbatim>\<open>open(file_path, 'rb')\<close>: a path into the working directory is looked up in the
  state, any other path in the world outside.
\<close>

definition open_rb :: "('a, 'c) env \<Rightarrow> string \<Rightarrow> ('c, 'u) world \<Rightarrow> error + 'c" where
  "open_rb E file_path w =
     (if startswith file_path (temp_dir_name @ ''/'') then
        (case temp_dir w of
           None \<Rightarrow> Inl (FileNotFoundError file_path)
         | Some d \<Rightarrow>
             (case d (drop (length (temp_dir_name @ ''/'')) file_path) of
                None \<Rightarrow> Inl (FileNotFoundError file_path)
              | Some c \<Rightarrow> Inr c))
      else read_file E file_path)"

subsection \<open>The class AudioTranscriber\<close>

definition max_file_size :: int where
  "max_file_size = 25 * 1024 * 1024"

definition get_file_size :: "('a, 'c) env \<Rightarrow> string \<Rightarrow> error + int" where
  "get_file_size E file_path = getsize E file_path"

definition format_map :: "(string \<times> string) list" where
  "format_map =
     [(''mp3'', ''mp3''), (''wav'', ''wav''), (''flac'', ''flac''),
      (''m4a'', ''mp4''), (''ogg'', ''ogg''), (''wma'', ''wma''), (''aac'', ''aac'')]"

definition ffmpeg_not_found :: string where
  "ffmpeg_not_found =
     ''FFmpeg not found! Please install FFmpeg:'' @ [CHR 0x0A, CHR 0x0A]
     @ ''Option 1 (Recommended for Anaconda users):'' @ [CHR 0x0A]
     @ ''  conda install -c conda-forge ffmpeg'' @ [CHR 0x0A, CHR 0x0A]
     @ ''Option 2 (Manual installation):'' @ [CHR 0x0A]
     @ ''  Download from: https://ffmpeg.org/download.html''"

text \<open>
  \<open>load_audio\<close>: a \<open>FileNotFoundError\<close> of the decoder is raised again as a
  \<open>FileNotFoundError\<close> with the text about FFmpeg; every other exception passes
  through.
\<close>

definition file_ext_of :: "string \<Rightarrow> string" where
  "file_ext_of file_path = remove_char CHR ''.'' (lower (suffix (Path file_path)))"

definition audio_format_of :: "string \<Rightarrow> string" where
  "audio_format_of file_ext =
     (case map_of format_map file_ext of Some f \<Rightarrow> f | None \<Rightarrow> file_ext)"

definition load_audio :: "('a, 'c) env \<Rightarrow> string \<Rightarrow> error + 'a audio_segment \<times> string" where
  "load_audio E file_path =
     (let file_ext = file_ext_of file_path;
          audio_format = audio_format_of file_ext
      in case from_file E file_path audio_format of
           Inr audio \<Rightarrow> Inr (audio, file_ext)
         | Inl (FileNotFoundError m) \<Rightarrow> Inl (FileNotFoundError ffmpeg_not_found)
         | Inl e \<Rightarrow> Inl e)"

definition transcribe_file :: "('a, 'c) env \<Rightarrow> string \<Rightarrow> ('c, 'u, string) stmt" where
  "transcribe_file E file_path w =
     (case open_rb E file_path w of
        Inl e \<Rightarrow> (Inl e, w)
      | Inr audio_file \<Rightarrow>
          (transcriptions_create E (api_calls w) audio_file,
           w\<lparr>api_calls := Suc (api_calls w)\<rparr>))"

text \<open>The body of the loop of \<open>transcribe_large_file\<close>, for chunk \<open>i\<close> of \<open>n\<close>.\<close>

definition process_chunk ::
  "('a, 'c) env \<Rightarrow> 'u callback \<Rightarrow> nat \<Rightarrow> nat \<Rightarrow> 'a audio_segment \<Rightarrow> ('c, 'u, string) stmt" where
  "process_chunk E progress_callback n i chunk =
     seq (notify progress_callback
            (''Processing chunk '' @ str_nat (i + 1) @ ''/'' @ str_nat n @ ''...'')) (\<lambda>_.
     seq (export E chunk i) (\<lambda>_.
     seq (transcribe_file E (temp_file i)) (\<lambda>chunk_transcript.
     seq (unlink E i) (\<lambda>_.
     seq (notify progress_callback
            (''Chunk '' @ str_nat (i + 1) @ ''/'' @ str_nat n @ '' completed'')) (\<lambda>_.
     ret chunk_transcript)))))"

text \<open>
  The loop \<^verbatim>\<open>for i, chunk in enumerate(chunks)\<close>, from index \<open>i\<close> on, with the
  transcripts appended so far.
\<close>

fun chunk_loop ::
  "('a, 'c) env \<Rightarrow> 'u callback \<Rightarrow> nat \<Rightarrow> nat \<Rightarrow> 'a audio_segment list \<Rightarrow> string list
     \<Rightarrow> ('c, 'u, string list) stmt" where
  "chunk_loop E progress_callback n i [] transcripts w = (Inr transcripts, w)"
| "chunk_loop E progress_callback n i (chunk # chunks) transcripts w =
     (case process_chunk E progress_callback n i chunk w of
        (Inl e, w') \<Rightarrow> (Inl e, w')
      | (Inr chunk_transcript, w') \<Rightarrow>
          chunk_loop E progress_callback n (Suc i) chunks (transcripts @ [chunk_transcript]) w')"

text \<open>
  The \<^verbatim>\<open>try\<close> block, and the whole of \<open>transcribe_large_file\<close> with its \<^verbatim>\<open>finally\<close>.
  The \<^verbatim>\<open>finally\<close> clause runs on every way out of the block; when it raises, its
  exception takes the place of the block's result or exception.
\<close>

definition try_block ::
  "('a, 'c) env \<Rightarrow> 'u callback \<Rightarrow> 'a audio_segment list \<Rightarrow> ('c, 'u, string) stmt" where
  "try_block E progress_callback chunks =
     seq (chunk_loop E progress_callback (length chunks) 0 chunks []) (\<lambda>transcripts.
     seq (notify progress_callback ''Merging transcripts...'') (\<lambda>_.
     ret (str_join '' '' transcripts)))"

definition try_finally :: "('a, 'c) env \<Rightarrow> ('c, 'u, 'r) stmt \<Rightarrow> ('c, 'u, 'r) stmt" where
  "try_finally E body w =
     (case body w of
        (r, w') \<Rightarrow>
          (case rmtree_if_exists E w' of
             (Inl e, w'') \<Rightarrow> (Inl e, w'')
           | (Inr u, w'') \<Rightarrow> (r, w'')))"

definition transcribe_large_file ::
  "('a, 'c) env \<Rightarrow> string \<Rightarrow> 'u callback \<Rightarrow> ('c, 'u, string) stmt" where
  "transcribe_large_file E audio_file_path progress_callback =
     seq (notify progress_callback ''Loading audio file...'') (\<lambda>_.
     seq (lift (load_audio E audio_file_path)) (\<lambda>(audio, original_format).
     seq (notify progress_callback ''Splitting audio into chunks...'') (\<lambda>_.
     seq (lift (split_audio_into_chunks audio 20)) (\<lambda>chunks.
     seq (notify progress_callback
            (''Audio split into '' @ str_nat (length chunks) @ '' chunks'')) (\<lambda>_.
     seq (mkdir E) (\<lambda>_.
     try_finally E (try_block E progress_callback chunks)))))))"

definition transcribe_audio ::
  "('a, 'c) env \<Rightarrow> string \<Rightarrow> 'u callback \<Rightarrow> ('c, 'u, string) stmt" where
  "transcribe_audio E audio_file_path progress_callback =
     seq (notify progress_callback ''Checking file size...'') (\<lambda>_.
     seq (lift (get_file_size E audio_file_path)) (\<lambda>file_size.
       if file_size < max_file_size then
         seq (notify progress_callback
                (''File size: '' @ format_mb E file_size @ '' MB - Transcribing directly...''))
           (\<lambda>_. transcribe_file E audio_file_path)
       else
         seq (notify progress_callback
                (''File size: '' @ format_mb E file_size @ '' MB - Splitting into chunks...''))
           (\<lambda>_. transcribe_large_file E audio_file_path progress_callback)))"

subsection \<open>Vocabulary for the history of the working directory\<close>


subsection \<open>Vocabulary for runs with different observers\<close>



section \<open>Properties\<close>

subsection \<open>Splitting\<close>

lemma ceil_div_bounds:
  fixes D L :: int
  assumes "0 < L"
  shows "(- (- D div L) - 1) * L < D" and "D \<le> - (- D div L) * L"
proof -
  define q where "q = - D div L"
  define m where "m = - D mod L"
  have e: "L * q + m = - D" by (simp add: q_def m_def)
  have r: "0 \<le> m" "m < L" using assms by (simp_all add: m_def)
  have a: "(- q - 1) * L = - (L * q) - L" by (simp add: algebra_simps)
  have b: "- q * L = - (L * q)" by simp
  show "(- (- D div L) - 1) * L < D" unfolding q_def [symmetric] a using e r by linarith
  show "D \<le> - (- D div L) * L" unfolding q_def [symmetric] b using e r by linarith
qed

lemma concat_takes:
  "concat (map (\<lambda>i. take l (drop (i * l) xs)) [0 ..< n]) = take (n * l) xs"
proof (induction n)
  case 0
  show ?case by simp
next
  case (Suc n)
  have "take (n * l) xs @ take l (drop (n * l) xs) = take (n * l + l) xs"
    by (simp add: take_add)
  with Suc show ?case by (simp add: add.commute)
qed

lemma millis_slice:
  "0 \<le> L \<Longrightarrow> millis (slice audio (int i * L) ((int i + 1) * L)) = take (nat L) (drop (i * nat L) (millis audio))"
  by (simp add: slice_def algebra_simps nat_mult_distrib)

lemma chunk_length_ms_value:
  assumes "0 < b" "0 < bitrate a"
  shows "chunk_length_ms a b = Inr ((b * 8388608000) div bitrate a)"
  using assms by (simp add: chunk_length_ms_def int_truediv_def Let_def mult.commute)


lemma sum_list_len:
  "sum_list (map len chunks) = int (length (concat (map millis chunks)))"
  by (induction chunks) (simp_all add: len_def)

lemma make_chunks_cover:
  assumes D: "0 < len audio" and L: "0 < L"
  shows "\<exists>chunks. make_chunks audio L = Inr chunks
     \<and> chunks \<noteq> []
     \<and> concat (map millis chunks) = millis audio
     \<and> (\<forall>c \<in> set (butlast chunks). len c = L)
     \<and> 0 < len (last chunks) \<and> len (last chunks) \<le> L"
proof -
  define q where "q = - (- len audio div L)"
  define n where "n = nat q"
  define l where "l = nat L"
  define xs where "xs = millis audio"
  define f where "f = (\<lambda>i. slice audio (int i * L) ((int i + 1) * L))"
  have lo: "(q - 1) * L < len audio" and hi: "len audio \<le> q * L"
    using ceil_div_bounds [OF L, of "len audio"] by (simp_all add: q_def)
  have qpos: "1 \<le> q"
  proof (rule ccontr)
    assume "\<not> 1 \<le> q"
    then have "q \<le> 0" by simp
    then have "q * L \<le> 0" using L by (simp add: mult_le_0_iff)
    with hi D show False by simp
  qed
  have npos: "0 < n" using qpos by (simp add: n_def)
  have iq: "int n = q" using qpos by (simp add: n_def)
  have iL: "int l = L" using L by (simp add: l_def)
  have ilen: "int (length xs) = len audio" by (simp add: xs_def len_def)
  have "int ((n - 1) * l) = (q - 1) * L" using npos iq iL by (simp add: of_nat_diff)
  with lo ilen have lo': "(n - 1) * l < length xs" by linarith
  have "int (n * l) = q * L" using iq iL by simp
  with hi ilen have hi': "length xs \<le> n * l" by linarith
  have fm: "millis (f i) = take l (drop (i * l) xs)" for i
    using L by (simp add: f_def millis_slice l_def xs_def)
  have mk: "make_chunks audio L = Inr (map f [0 ..< n])"
    using L by (simp add: make_chunks_def Let_def q_def n_def f_def)
  have ne: "map f [0 ..< n] \<noteq> []" using npos by simp
  have "concat (map millis (map f [0 ..< n])) = take (n * l) xs"
    using concat_takes [of l xs n] by (simp add: fm comp_def)
  with hi' have cc: "concat (map millis (map f [0 ..< n])) = millis audio"
    by (simp add: xs_def)
  have upt: "[0 ..< n] = [0 ..< n - 1] @ [n - 1]"
    using npos by (cases n) simp_all
  have bl: "butlast (map f [0 ..< n]) = map f [0 ..< n - 1]"
    by (subst upt) (simp add: butlast_append)
  have la: "last (map f [0 ..< n]) = f (n - 1)"
    by (subst upt) simp
  have full: "len c = L" if "c \<in> set (butlast (map f [0 ..< n]))" for c
  proof -
    from that bl obtain i where i: "i < n - 1" and c: "c = f i" by auto
    from i have "Suc i \<le> n - 1" by simp
    then have "Suc i * l \<le> (n - 1) * l" by (rule mult_le_mono1)
    with lo' have "i * l + l < length xs" by simp
    then have "length (take l (drop (i * l) xs)) = l" by simp
    then show ?thesis by (simp add: c len_def fm iL)
  qed
  have lastlen: "length (millis (f (n - 1))) = min l (length xs - (n - 1) * l)"
    by (simp add: fm min.commute)
  have lpos: "0 < l" using L by (simp add: l_def)
  have "0 < min l (length xs - (n - 1) * l)" using lo' lpos by simp
  then have "0 < length (millis (f (n - 1)))" by (simp only: lastlen)
  moreover have "length (millis (f (n - 1))) \<le> l" unfolding lastlen by simp
  ultimately have "0 < len (last (map f [0 ..< n]))" "len (last (map f [0 ..< n])) \<le> L"
    using iL by (simp_all add: la len_def)
  with mk ne cc full show ?thesis by blast
qed

text \<open>
  Claim C2, as the code has it. For a positive budget \<open>b\<close> (in MiB) with
  \<open>b * 8388608000 < 2 ^ 52\<close>, that is \<open>b \<le> 536870\<close>, which includes the 20 the
  program passes, and positive audio properties, the chunk length is computed without
  error, and it is greater than 0 milliseconds exactly when the bitrate is at most
  \<open>b * 8388608000\<close>; above that the quotient truncates to 0. The bitrate itself is not
  bounded. A bitrate of 0 makes the division raise \<open>ZeroDivisionError\<close>, for every
  budget, in the chunk length and so in \<open>split_audio_into_chunks\<close>; the program has no
  exception of its own for it.
\<close>

theorem chunk_length_ms_positive:
  "(0 < b \<and> b * 8388608000 < 2 ^ 52
      \<and> 0 < frame_rate a \<and> 0 < frame_width a \<and> 0 < channels a \<longrightarrow>
      (\<exists>L. chunk_length_ms a b = Inr L \<and> 0 \<le> L \<and> (0 < L \<longleftrightarrow> bitrate a \<le> b * 8388608000)))
   \<and> (bitrate a = 0 \<longrightarrow>
        chunk_length_ms a b = Inl ZeroDivisionError
        \<and> split_audio_into_chunks a b = Inl ZeroDivisionError)"
proof (intro conjI impI)
  assume pos: "0 < b \<and> b * 8388608000 < 2 ^ 52
      \<and> 0 < frame_rate a \<and> 0 < frame_width a \<and> 0 < channels a"
  then have br: "0 < bitrate a" by (simp add: bitrate_def)
  have L: "chunk_length_ms a b = Inr (b * 8388608000 div bitrate a)"
    using pos br by (simp add: chunk_length_ms_value)
  have nn: "0 \<le> b * 8388608000 div bitrate a"
    using pos br by (simp add: pos_imp_zdiv_nonneg_iff)
  have "0 < b * 8388608000 div bitrate a \<longleftrightarrow> bitrate a \<le> b * 8388608000"
    using br by (simp add: pos_imp_zdiv_pos_iff)
  with L nn show "\<exists>L. chunk_length_ms a b = Inr L \<and> 0 \<le> L \<and> (0 < L \<longleftrightarrow> bitrate a \<le> b * 8388608000)"
    by blast
next
  assume z: "bitrate a = 0"
  then show "chunk_length_ms a b = Inl ZeroDivisionError"
    by (simp add: chunk_length_ms_def int_truediv_def)
  then show "split_audio_into_chunks a b = Inl ZeroDivisionError"
    by (simp add: split_audio_into_chunks_def)
qed

theorem chunk_length_ms_positive_witness:
  "(\<exists>L. chunk_length_ms \<lparr>frame_rate = 44100, frame_width = 4, channels = 2, millis = [()]\<rparr> 20 = Inr L
        \<and> 0 \<le> L \<and> 0 < L)
   \<and> split_audio_into_chunks \<lparr>frame_rate = 0, frame_width = 4, channels = 2, millis = [()]\<rparr> 20
       = Inl ZeroDivisionError"
proof -
  have "\<exists>L. chunk_length_ms \<lparr>frame_rate = 44100, frame_width = 4, channels = 2, millis = [()]\<rparr> 20 = Inr L
        \<and> 0 \<le> L \<and> 0 < L"
    using chunk_length_ms_positive
      [of 20 "\<lparr>frame_rate = 44100, frame_width = 4, channels = 2, millis = [()]\<rparr>"]
    by (simp add: bitrate_def)
  moreover have "split_audio_into_chunks \<lparr>frame_rate = 0, frame_width = 4, channels = 2, millis = [()]\<rparr> 20
       = Inl ZeroDivisionError"
    using chunk_length_ms_positive
      [of 20 "\<lparr>frame_rate = 0, frame_width = 4, channels = 2, millis = [()]\<rparr>"]
    by (simp add: bitrate_def)
  ultimately show ?thesis by blast
qed

text \<open>
  Claim C2 as stated fails: with the budget of 20 MiB that the pipeline passes and the
  positive properties 4294967295 Hz, frame width 8 and 2 channels, the chunk length is
  0 milliseconds and the split raises \<open>ZeroDivisionError\<close>.
\<close>

theorem chunk_length_ms_zero_counterexample:
  "chunk_length_ms \<lparr>frame_rate = 4294967295, frame_width = 8, channels = 2, millis = [()]\<rparr> 20 = Inr 0
   \<and> split_audio_into_chunks \<lparr>frame_rate = 4294967295, frame_width = 8, channels = 2, millis = [()]\<rparr> 20
       = Inl ZeroDivisionError"
  by (simp add: split_audio_into_chunks_def chunk_length_ms_def int_truediv_def bitrate_def
      make_chunks_def)

text \<open>
  Claim C4. An audio of positive duration whose computed chunk length \<open>L\<close> is positive is
  split into a non-empty sequence of chunks that, put end to end in order, are the audio
  again, so that their lengths sum to its duration; every chunk but the last has length
  \<open>L\<close>, and the last has a length in \<open>(0, L]\<close>.
\<close>

theorem split_coverage:
  assumes "0 < len audio" and "chunk_length_ms audio b = Inr L" and "0 < L"
  shows "\<exists>chunks. split_audio_into_chunks audio b = Inr chunks
     \<and> chunks \<noteq> []
     \<and> concat (map millis chunks) = millis audio
     \<and> sum_list (map len chunks) = len audio
     \<and> (\<forall>c \<in> set (butlast chunks). len c = L)
     \<and> 0 < len (last chunks) \<and> len (last chunks) \<le> L"
proof -
  from make_chunks_cover [OF assms(1) assms(3)] obtain chunks where
    c: "make_chunks audio L = Inr chunks" "chunks \<noteq> []"
      "concat (map millis chunks) = millis audio"
      "\<forall>c \<in> set (butlast chunks). len c = L"
      "0 < len (last chunks)" "len (last chunks) \<le> L"
    by blast
  have s: "split_audio_into_chunks audio b = Inr chunks"
    using assms(2) c(1) by (simp add: split_audio_into_chunks_def)
  have "sum_list (map len chunks) = len audio"
    using c(3) by (simp add: sum_list_len len_def)
  with s c show ?thesis by blast
qed

theorem split_coverage_witness:
  "\<exists>chunks. split_audio_into_chunks
        \<lparr>frame_rate = 524288000, frame_width = 1, channels = 1, millis = ''abcde''\<rparr> 1
        = Inr chunks
     \<and> map millis chunks = [''ab'', ''cd'', ''e'']
     \<and> sum_list (map len chunks) = 5
     \<and> list_all (\<lambda>c. len c = 2) (butlast chunks)
     \<and> 0 < len (last chunks) \<and> len (last chunks) \<le> 2"
proof -
  let ?a = "\<lparr>frame_rate = 524288000, frame_width = 1, channels = 1, millis = ''abcde''\<rparr>"
  have h1: "0 < len ?a" by (simp add: len_def)
  have h2: "chunk_length_ms ?a 1 = Inr 2"
    by (simp add: chunk_length_ms_def int_truediv_def bitrate_def)
  have h3: "(0::int) < 2" by simp
  from split_coverage [OF h1 h2 h3] obtain chunks where
    c: "split_audio_into_chunks ?a 1 = Inr chunks"
      "sum_list (map len chunks) = len ?a"
      "\<forall>c \<in> set (butlast chunks). len c = 2"
      "0 < len (last chunks)" "len (last chunks) \<le> 2"
    by blast
  have e: "split_audio_into_chunks ?a 1
      = Inr (map (\<lambda>i. slice ?a (int i * 2) ((int i + 1) * 2)) [0, 1, 2])"
    by (simp add: split_audio_into_chunks_def h2 make_chunks_def len_def upt_rec)
  have "map millis chunks = [''ab'', ''cd'', ''e'']"
    using c(1) e by (auto simp: slice_def)
  with c show ?thesis by (simp add: len_def list_all_iff)
qed

subsection \<open>Paths\<close>

lemma split_on_not_Nil: "split_on c s \<noteq> []"
  by (induction s) (auto split: list.splits)

lemma split_on_no_sep: "x \<in> set (split_on c s) \<Longrightarrow> c \<notin> set x"
proof (induction s arbitrary: x)
  case Nil
  then show ?case by simp
next
  case (Cons a s)
  show ?case
  proof (cases "a = c")
    case True
    with Cons show ?thesis by auto
  next
    case False
    obtain p ps where ps: "split_on c s = p # ps"
      using split_on_not_Nil [of c s] by (cases "split_on c s") auto
    with Cons.prems False have "x = a # p \<or> x \<in> set ps" by simp
    then show ?thesis
    proof
      assume "x = a # p"
      moreover have "c \<notin> set p" using Cons.IH [of p] ps by simp
      ultimately show ?thesis using False by auto
    next
      assume "x \<in> set ps"
      then show ?thesis using Cons.IH [of x] ps by simp
    qed
  qed
qed

lemma split_on_no_sep_id: "c \<notin> set s \<Longrightarrow> split_on c s = [s]"
  by (induction s) auto

lemma split_on_append: "c \<notin> set x \<Longrightarrow> split_on c (x @ c # s) = x # split_on c s"
  by (induction x) auto

lemma split_on_join:
  "ps \<noteq> [] \<Longrightarrow> \<forall>x \<in> set ps. c \<notin> set x \<Longrightarrow> split_on c (str_join [c] ps) = ps"
proof (induction ps)
  case Nil
  then show ?case by simp
next
  case (Cons p ps)
  show ?case
  proof (cases ps)
    case Nil
    with Cons.prems show ?thesis by (simp add: split_on_no_sep_id)
  next
    case (Cons q qs)
    with Cons.prems Cons.IH have "split_on c (str_join [c] ps) = ps" by simp
    with Cons Cons.prems show ?thesis by (simp add: split_on_append)
  qed
qed

lemma parts_Path_ok:
  "x \<in> set (parts (Path p)) \<Longrightarrow> x \<noteq> [] \<and> x \<noteq> ''.'' \<and> CHR ''/'' \<notin> set x"
  by (auto simp: Path_def dest: split_on_no_sep)

lemma root_Path: "root (Path p) = [] \<or> root (Path p) = ''/'' \<or> root (Path p) = ''//''"
  by (simp add: Path_def splitroot_def)

lemma filter_split_join:
  assumes "\<forall>x \<in> set ps. x \<noteq> [] \<and> x \<noteq> ''.'' \<and> CHR ''/'' \<notin> set x"
  shows "filter (\<lambda>x. x \<noteq> [] \<and> x \<noteq> ''.'') (split_on CHR ''/'' (str_join ''/'' ps)) = ps"
proof (cases ps)
  case Nil
  then show ?thesis by simp
next
  case (Cons q qs)
  then have "split_on CHR ''/'' (str_join ''/'' ps) = ps"
    using assms split_on_join [of ps "CHR ''/''"] by simp
  moreover have "filter (\<lambda>x. x \<noteq> [] \<and> x \<noteq> ''.'') ps = ps"
    using assms by (simp add: filter_id_conv)
  ultimately show ?thesis by simp
qed

lemma take1_join:
  assumes "\<forall>x \<in> set ps. x \<noteq> [] \<and> x \<noteq> ''.'' \<and> CHR ''/'' \<notin> set x"
  shows "take 1 (str_join ''/'' ps) \<noteq> ''/''"
proof (cases ps)
  case Nil
  then show ?thesis by simp
next
  case (Cons q qs)
  with assms obtain a r where q: "q = a # r" "a \<noteq> CHR ''/''"
    by (cases q) auto
  show ?thesis
    using Cons q by (cases qs) simp_all
qed

lemma Path_path_str:
  assumes r: "r = [] \<or> r = ''/'' \<or> r = ''//''"
    and ok: "\<forall>x \<in> set ps. x \<noteq> [] \<and> x \<noteq> ''.'' \<and> CHR ''/'' \<notin> set x"
  shows "Path (path_str \<lparr>root = r, parts = ps\<rparr>) = \<lparr>root = r, parts = ps\<rparr>"
proof -
  let ?s = "str_join ''/'' ps"
  have t: "take 1 ?s \<noteq> ''/''" by (rule take1_join [OF ok])
  have f: "filter (\<lambda>x. x \<noteq> [] \<and> x \<noteq> ''.'') (split_on CHR ''/'' ?s) = ps"
    by (rule filter_split_join [OF ok])
  from r consider (rel) "r = []" "ps = []" | (rel') "r = []" "ps \<noteq> []"
    | (one) "r = ''/''" | (two) "r = ''//''"
    by blast
  then show ?thesis
  proof cases
    case rel
    then show ?thesis by (simp add: path_str_def Path_def splitroot_def)
  next
    case rel'
    then have "splitroot (path_str \<lparr>root = r, parts = ps\<rparr>) = ([], ?s)"
      using t by (simp add: path_str_def splitroot_def)
    then show ?thesis using f rel' by (simp add: Path_def)
  next
    case one
    then have "splitroot (path_str \<lparr>root = r, parts = ps\<rparr>) = (''/'', ?s)"
      using t by (simp add: path_str_def splitroot_def)
    then show ?thesis using f one by (simp add: Path_def)
  next
    case two
    then have "splitroot (path_str \<lparr>root = r, parts = ps\<rparr>) = (''//'', ?s)"
      using t by (simp add: path_str_def splitroot_def)
    then show ?thesis using f two by (simp add: Path_def)
  qed
qed

lemma Path_component:
  assumes "x \<noteq> []" "x \<noteq> ''.''" "CHR ''/'' \<notin> set x"
  shows "Path x = \<lparr>root = [], parts = [x]\<rparr>"
proof -
  from assms obtain a r where x: "x = a # r" "a \<noteq> CHR ''/''" by (cases x) auto
  then have "splitroot x = ([], x)" by (simp add: splitroot_def)
  then show ?thesis using assms by (simp add: Path_def split_on_no_sep_id)
qed

lemma stem_suffix: "stem P @ suffix P = name P"
  by (simp add: stem_def suffix_def Let_def)

lemma set_stem: "set (stem P) \<subseteq> set (name P)"
  by (auto simp: stem_def Let_def dest: in_set_takeD)

lemma name_no_sep: "CHR ''/'' \<notin> set (name (Path p))"
  using parts_Path_ok [of "last (parts (Path p))" p] by (simp add: name_def)

lemma transcript_name_ok:
  "stem (Path p) @ ''_transcript.txt'' \<noteq> []
   \<and> stem (Path p) @ ''_transcript.txt'' \<noteq> ''.''
   \<and> CHR ''/'' \<notin> set (stem (Path p) @ ''_transcript.txt'')"
proof -
  have "CHR ''/'' \<notin> set (stem (Path p))"
    using set_stem [of "Path p"] name_no_sep [of p] by blast
  moreover have "length (stem (Path p) @ ''_transcript.txt'') \<noteq> length ''.''"
    by simp
  then have "stem (Path p) @ ''_transcript.txt'' \<noteq> ''.''" by metis
  ultimately show ?thesis by simp
qed

lemma parts_parent_ok:
  "x \<in> set (parts (parent (Path p))) \<Longrightarrow> x \<noteq> [] \<and> x \<noteq> ''.'' \<and> CHR ''/'' \<notin> set x"
  using parts_Path_ok [of x p] by (auto simp: parent_def dest: in_set_butlastD split: if_splits)

text \<open>
  Claim C8. The result of \<open>get_default_transcript_path\<close> depends on the path alone; read
  back as a path it has the root and the directory components of the input, followed by
  one new name: the stem of the input's name and \<^verbatim>\<open>_transcript.txt\<close>. So it has the
  parent of the input, and its name is the input's name with the suffix (the extension)
  replaced.
\<close>

theorem default_transcript_path_sibling:
  "Path (get_default_transcript_path p)
     = \<lparr>root = root (Path p),
        parts = butlast (parts (Path p)) @ [stem (Path p) @ ''_transcript.txt'']\<rparr>
   \<and> parent (Path (get_default_transcript_path p)) = parent (Path p)
   \<and> name (Path (get_default_transcript_path p)) = stem (Path p) @ ''_transcript.txt''
   \<and> name (Path p) = stem (Path p) @ suffix (Path p)
   \<and> get_default_transcript_path ''/x/song.mp3'' = ''/x/song_transcript.txt''"
proof -
  let ?P = "Path p"
  let ?n = "stem ?P @ ''_transcript.txt''"
  let ?R = "\<lparr>root = root ?P, parts = butlast (parts ?P) @ [?n]\<rparr>"
  have n: "?n \<noteq> [] \<and> ?n \<noteq> ''.'' \<and> CHR ''/'' \<notin> set ?n" by (rule transcript_name_ok)
  have key: "Path ?n = \<lparr>root = [], parts = [?n]\<rparr>"
    using n by (intro Path_component) simp_all
  have pp: "parts (parent ?P) = butlast (parts ?P)" "root (parent ?P) = root ?P"
    by (simp_all add: parent_def)
  have td: "truediv (parent ?P) ?n = ?R"
    by (simp add: truediv_def key pp)
  have ok: "\<forall>x \<in> set (butlast (parts ?P) @ [?n]). x \<noteq> [] \<and> x \<noteq> ''.'' \<and> CHR ''/'' \<notin> set x"
    using n parts_parent_ok [of _ p] by (auto simp: pp)
  have g: "get_default_transcript_path p = path_str ?R"
    by (simp add: get_default_transcript_path_def Let_def td)
  have 1: "Path (get_default_transcript_path p) = ?R"
    unfolding g by (rule Path_path_str [OF root_Path ok])
  have 2: "parent (Path (get_default_transcript_path p)) = parent ?P"
    unfolding 1 by (cases ?P) (simp add: parent_def)
  have 3: "name (Path (get_default_transcript_path p)) = ?n"
    unfolding 1 by (simp add: name_def)
  have 4: "name ?P = stem ?P @ suffix ?P" by (simp add: stem_suffix)
  have 5: "get_default_transcript_path ''/x/song.mp3'' = ''/x/song_transcript.txt''"
    by (simp add: get_default_transcript_path_def Path_def splitroot_def stem_def name_def
        parent_def truediv_def path_str_def rfind_def)
  from 1 2 3 4 5 show ?thesis by blast
qed

subsection \<open>Loading\<close>

text \<open>
  Claim C7. When the decoder fails, \<open>load_audio\<close> sorts the failure at the boundary. A
  \<open>FileNotFoundError\<close>, which is how a missing FFmpeg shows itself, is reported as the
  one error that says FFmpeg was not found. Every other failure, such as a container or
  codec that cannot be decoded, is passed on as it is, and is never that error.
\<close>

theorem load_audio_classifies:
  assumes "from_file E p (audio_format_of (file_ext_of p)) = Inl e"
  shows "((\<exists>m. e = FileNotFoundError m) \<longrightarrow>
            load_audio E p = Inl (FileNotFoundError ffmpeg_not_found))
       \<and> ((\<forall>m. e \<noteq> FileNotFoundError m) \<longrightarrow>
            load_audio E p = Inl e \<and> load_audio E p \<noteq> Inl (FileNotFoundError ffmpeg_not_found))"
  using assms by (cases e) (simp_all add: load_audio_def)

theorem load_audio_classifies_witness:
  "load_audio
     \<lparr>getsize = (\<lambda>p. Inr 0), read_file = (\<lambda>p. Inr ''''),
      from_file = (\<lambda>p f. if f = ''mp4'' then Inl (FileNotFoundError ''ffprobe'')
                          else Inl (CouldntDecodeError ''Decoding failed'')),
      export_mp3 = (\<lambda>c. Inr (millis c)), transcriptions_create = (\<lambda>n c. Inr c),
      format_mb = (\<lambda>n. ''''),
      mkdir_error = None, unlink_error = (\<lambda>n. None), rmtree_error = (\<lambda>d. None)\<rparr> ''talk.M4A''
     = Inl (FileNotFoundError ffmpeg_not_found)
   \<and> load_audio
     \<lparr>getsize = (\<lambda>p. Inr 0), read_file = (\<lambda>p. Inr ''''),
      from_file = (\<lambda>p f. if f = ''mp4'' then Inl (FileNotFoundError ''ffprobe'')
                          else Inl (CouldntDecodeError ''Decoding failed'')),
      export_mp3 = (\<lambda>c. Inr (millis c)), transcriptions_create = (\<lambda>n c. Inr c),
      format_mb = (\<lambda>n. ''''),
      mkdir_error = None, unlink_error = (\<lambda>n. None), rmtree_error = (\<lambda>d. None)\<rparr> ''talk.xyz''
     = Inl (CouldntDecodeError ''Decoding failed'')"
proof -
  let ?E = "\<lparr>getsize = (\<lambda>p. Inr 0), read_file = (\<lambda>p. Inr ''''),
      from_file = (\<lambda>p f. if f = ''mp4'' then Inl (FileNotFoundError ''ffprobe'')
                          else Inl (CouldntDecodeError ''Decoding failed'')),
      export_mp3 = (\<lambda>c. Inr (millis c)), transcriptions_create = (\<lambda>n c. Inr c),
      format_mb = (\<lambda>n. ''''),
      mkdir_error = None, unlink_error = (\<lambda>n. None), rmtree_error = (\<lambda>d. None)\<rparr> :: (char, string) env"
  have f1: "audio_format_of (file_ext_of ''talk.M4A'') = ''mp4''"
    by (simp add: audio_format_of_def file_ext_of_def format_map_def remove_char_def
        lower_def lower_char_def suffix_def name_def Path_def splitroot_def rfind_def)
  have f2: "audio_format_of (file_ext_of ''talk.xyz'') = ''xyz''"
    by (simp add: audio_format_of_def file_ext_of_def format_map_def remove_char_def
        lower_def lower_char_def suffix_def name_def Path_def splitroot_def rfind_def)
  have h1: "from_file ?E ''talk.M4A'' (audio_format_of (file_ext_of ''talk.M4A''))
      = Inl (FileNotFoundError ''ffprobe'')"
    by (simp add: f1)
  have h2: "from_file ?E ''talk.xyz'' (audio_format_of (file_ext_of ''talk.xyz''))
      = Inl (CouldntDecodeError ''Decoding failed'')"
    by (simp add: f2)
  show ?thesis
    using load_audio_classifies [OF h1] load_audio_classifies [OF h2] by simp
qed

subsection \<open>Sequencing and notification\<close>

lemma seq_Inl: "m w = (Inl e, w') \<Longrightarrow> seq m f w = (Inl e, w')"
  by (simp add: seq_def)

lemma seq_Inr: "m w = (Inr x, w') \<Longrightarrow> seq m f w = f x w'"
  by (simp add: seq_def)

lemma seq_cases:
  assumes "seq m f w = (r, w')"
  obtains e where "m w = (Inl e, w')" "r = Inl e"
  | x w1 where "m w = (Inr x, w1)" "f x w1 = (r, w')"
  using assms by (auto simp: seq_def split: prod.splits sum.splits)

lemma notify_None: "notify None message w = (Inr (), w)"
  by (simp add: notify_def)

lemma notify_quiet:
  "notify (quiet h) message w
     = (Inr (), w\<lparr>observer := (case h of None \<Rightarrow> observer w | Some g \<Rightarrow> g message (observer w))\<rparr>)"
  by (cases h) (simp_all add: notify_def quiet_def)

lemma notify_frame:
  assumes "notify cb message w = (r, w')"
  shows "temp_dir w' = temp_dir w \<and> api_calls w' = api_calls w \<and> snapshots w' = snapshots w"
  using assms by (auto simp: notify_def split: option.splits sum.splits)

subsection \<open>Routing by size\<close>

text \<open>
  Claim C1. Once the size \<open>s\<close> of the file is known, \<open>transcribe_audio\<close> takes the direct
  route, one call of \<open>transcribe_file\<close> on the original file, if \<open>s < 26214400\<close> (25 MiB),
  and the chunked route, \<open>transcribe_large_file\<close>, otherwise; so a file of exactly
  26214400 bytes is chunked. The first statement holds for every callback; the second
  says what that is for a callback that returns normally, which only moves the
  observer's state.
\<close>

theorem size_routing:
  assumes "getsize E p = Inr s"
  shows "transcribe_audio E p cb w =
           seq (notify cb ''Checking file size...'') (\<lambda>_.
             if s < 26214400
             then seq (notify cb (''File size: '' @ format_mb E s @ '' MB - Transcribing directly...''))
                    (\<lambda>_. transcribe_file E p)
             else seq (notify cb (''File size: '' @ format_mb E s @ '' MB - Splitting into chunks...''))
                    (\<lambda>_. transcribe_large_file E p cb)) w
       \<and> (\<exists>u. transcribe_audio E p (quiet h) w =
             (if s < 26214400 then transcribe_file E p (w\<lparr>observer := u\<rparr>)
              else transcribe_large_file E p (quiet h) (w\<lparr>observer := u\<rparr>)))"
proof
  show "transcribe_audio E p cb w =
           seq (notify cb ''Checking file size...'') (\<lambda>_.
             if s < 26214400
             then seq (notify cb (''File size: '' @ format_mb E s @ '' MB - Transcribing directly...''))
                    (\<lambda>_. transcribe_file E p)
             else seq (notify cb (''File size: '' @ format_mb E s @ '' MB - Splitting into chunks...''))
                    (\<lambda>_. transcribe_large_file E p cb)) w"
    using assms
    by (simp add: transcribe_audio_def get_file_size_def seq_def lift_def max_file_size_def
        split: prod.splits sum.splits)
  show "\<exists>u. transcribe_audio E p (quiet h) w =
             (if s < 26214400 then transcribe_file E p (w\<lparr>observer := u\<rparr>)
              else transcribe_large_file E p (quiet h) (w\<lparr>observer := u\<rparr>))"
    using assms
    by (auto simp: transcribe_audio_def get_file_size_def seq_def lift_def max_file_size_def
        notify_quiet)
qed

theorem size_routing_witness:
  "transcribe_audio
     \<lparr>getsize = (\<lambda>p. if p = ''exact.mp3'' then Inr 26214400 else Inr 26214399),
      read_file = (\<lambda>p. Inr p), from_file = (\<lambda>p f. Inl (CouldntDecodeError p)),
      export_mp3 = (\<lambda>c. Inr (millis c)), transcriptions_create = (\<lambda>n c. Inr c),
      format_mb = (\<lambda>n. ''25.00''),
      mkdir_error = None, unlink_error = (\<lambda>n. None), rmtree_error = (\<lambda>d. None)\<rparr> ''exact.mp3'' None
     \<lparr>temp_dir = None, api_calls = 0, observer = (), snapshots = []\<rparr>
   = transcribe_large_file
     \<lparr>getsize = (\<lambda>p. if p = ''exact.mp3'' then Inr 26214400 else Inr 26214399),
      read_file = (\<lambda>p. Inr p), from_file = (\<lambda>p f. Inl (CouldntDecodeError p)),
      export_mp3 = (\<lambda>c. Inr (millis c)), transcriptions_create = (\<lambda>n c. Inr c),
      format_mb = (\<lambda>n. ''25.00''),
      mkdir_error = None, unlink_error = (\<lambda>n. None), rmtree_error = (\<lambda>d. None)\<rparr> ''exact.mp3'' None
     \<lparr>temp_dir = None, api_calls = 0, observer = (), snapshots = []\<rparr>
   \<and> transcribe_audio
     \<lparr>getsize = (\<lambda>p. if p = ''exact.mp3'' then Inr 26214400 else Inr 26214399),
      read_file = (\<lambda>p. Inr p), from_file = (\<lambda>p f. Inl (CouldntDecodeError p)),
      export_mp3 = (\<lambda>c. Inr (millis c)), transcriptions_create = (\<lambda>n c. Inr c),
      format_mb = (\<lambda>n. ''25.00''),
      mkdir_error = None, unlink_error = (\<lambda>n. None), rmtree_error = (\<lambda>d. None)\<rparr> ''below.mp3'' None
     \<lparr>temp_dir = None, api_calls = 0, observer = (), snapshots = []\<rparr>
   = transcribe_file
     \<lparr>getsize = (\<lambda>p. if p = ''exact.mp3'' then Inr 26214400 else Inr 26214399),
      read_file = (\<lambda>p. Inr p), from_file = (\<lambda>p f. Inl (CouldntDecodeError p)),
      export_mp3 = (\<lambda>c. Inr (millis c)), transcriptions_create = (\<lambda>n c. Inr c),
      format_mb = (\<lambda>n. ''25.00''),
      mkdir_error = None, unlink_error = (\<lambda>n. None), rmtree_error = (\<lambda>d. None)\<rparr> ''below.mp3''
     \<lparr>temp_dir = None, api_calls = 0, observer = (), snapshots = []\<rparr>"
proof -
  let ?E = "\<lparr>getsize = (\<lambda>p. if p = ''exact.mp3'' then Inr 26214400 else Inr 26214399),
      read_file = (\<lambda>p. Inr p), from_file = (\<lambda>p f. Inl (CouldntDecodeError p)),
      export_mp3 = (\<lambda>c. Inr (millis c)), transcriptions_create = (\<lambda>n c. Inr c),
      format_mb = (\<lambda>n. ''25.00''),
      mkdir_error = None, unlink_error = (\<lambda>n. None), rmtree_error = (\<lambda>d. None)\<rparr> :: (char, string) env"
  let ?w = "\<lparr>temp_dir = None, api_calls = 0, observer = (), snapshots = []\<rparr>
      :: (string, unit) world"
  have h1: "getsize ?E ''exact.mp3'' = Inr 26214400" by simp
  have h2: "getsize ?E ''below.mp3'' = Inr 26214399" by simp
  have "transcribe_audio ?E ''exact.mp3'' None ?w = transcribe_large_file ?E ''exact.mp3'' None ?w"
    using size_routing [OF h1, of None ?w] by (simp add: seq_def notify_None)
  moreover
  have "transcribe_audio ?E ''below.mp3'' None ?w = transcribe_file ?E ''below.mp3'' ?w"
    using size_routing [OF h2, of None ?w] by (simp add: seq_def notify_None)
  ultimately show ?thesis by (rule conjI)
qed

subsection \<open>The working directory\<close>

lemma startswith_temp_file: "startswith (temp_file i) (temp_dir_name @ ''/'')"
  by (simp add: startswith_def temp_file_def)

lemma drop_temp_file: "drop (length (temp_dir_name @ ''/'')) (temp_file i) = chunk_name i"
  by (simp add: temp_file_def)

lemma open_rb_temp_file:
  "open_rb E (temp_file i) w =
     (case temp_dir w of
        None \<Rightarrow> Inl (FileNotFoundError (temp_file i))
      | Some d \<Rightarrow>
          (case d (chunk_name i) of
             None \<Rightarrow> Inl (FileNotFoundError (temp_file i))
           | Some c \<Rightarrow> Inr c))"
  unfolding open_rb_def using startswith_temp_file [of i] drop_temp_file [of i]
  by (simp only: if_True)

lemma mkdir_cases:
  assumes "mkdir E w = (r, w')"
  shows "(\<exists>e. r = Inl e \<and> w' = w \<and> temp_dir w = None \<and> mkdir_error E = Some e)
       \<or> (r = Inr () \<and> temp_dir w' \<noteq> None \<and> api_calls w' = api_calls w
            \<and> (temp_dir w = None \<longrightarrow> mkdir_error E = None))"
  using assms by (auto simp: mkdir_def set_temp_dir_def split: option.splits)

text \<open>
  The \<^verbatim>\<open>finally\<close> clause either removes the directory and passes on what the block
  returned or raised, or fails in \<^verbatim>\<open>rmtree\<close>: then the directory stays and the caller
  gets the exception of \<^verbatim>\<open>rmtree\<close>.
\<close>

lemma try_finally_cases:
  assumes "try_finally E body w = (r, w')"
  shows "(\<exists>w0. body w = (r, w0) \<and> temp_dir w' = None \<and> api_calls w' = api_calls w0
            \<and> (w' = w0 \<or> w' = set_temp_dir None w0))
       \<or> (\<exists>r0 w0 d e remains. body w = (r0, w0) \<and> temp_dir w0 = Some d
            \<and> rmtree_error E d = Some (e, remains) \<and> r = Inl e
            \<and> w' = set_temp_dir (Some (\<lambda>n. if remains n then d n else None)) w0)"
  using assms
  by (auto simp: try_finally_def rmtree_if_exists_def set_temp_dir_def
      split: prod.splits option.splits sum.splits)

text \<open>
  Every run of \<open>transcribe_large_file\<close> either raises before it touches the working
  directory, or loads and splits the audio and reaches \<^verbatim>\<open>temp_dir.mkdir\<close>.
\<close>

lemma transcribe_large_file_cases:
  assumes "transcribe_large_file E p cb w = (r, w')"
  shows "(\<exists>e. r = Inl e \<and> temp_dir w' = temp_dir w \<and> snapshots w' = snapshots w
            \<and> api_calls w' = api_calls w)
       \<or> (\<exists>audio ext chunks w1.
            load_audio E p = Inr (audio, ext)
            \<and> split_audio_into_chunks audio 20 = Inr chunks
            \<and> temp_dir w1 = temp_dir w \<and> snapshots w1 = snapshots w
            \<and> api_calls w1 = api_calls w
            \<and> seq (mkdir E) (\<lambda>_. try_finally E (try_block E cb chunks)) w1 = (r, w'))"
proof -
  let ?same = "\<lambda>v. temp_dir v = temp_dir w \<and> snapshots v = snapshots w \<and> api_calls v = api_calls w"
  let ?early = "\<exists>e. r = Inl e \<and> ?same w'"
  note a = assms [unfolded transcribe_large_file_def]
  from a show ?thesis
  proof (cases rule: seq_cases)
    case (1 e)
    then show ?thesis using notify_frame [OF 1(1)] by simp
  next
    case (2 x w1)
    have s1: "?same w1" using notify_frame [OF 2(1)] by simp
    from 2(2) show ?thesis
    proof (cases rule: seq_cases)
      case (1 e)
      then show ?thesis using s1 by (simp add: lift_def)
    next
      case (2 ae w2)
      obtain audio ext where ae: "ae = (audio, ext)" by (cases ae)
      from 2(1) have l: "load_audio E p = Inr (audio, ext)" and w2: "w2 = w1"
        by (simp_all add: lift_def ae)
      from 2(2) have b: "seq (notify cb ''Splitting audio into chunks...'')
          (\<lambda>_. seq (lift (split_audio_into_chunks audio 20))
            (\<lambda>chunks. seq (notify cb (''Audio split into '' @ str_nat (length chunks) @ '' chunks''))
              (\<lambda>_. seq (mkdir E) (\<lambda>_. try_finally E (try_block E cb chunks))))) w1 = (r, w')"
        by (simp add: ae w2)
      from b show ?thesis
      proof (cases rule: seq_cases)
        case (1 e)
        then show ?thesis using notify_frame [OF 1(1)] s1 by simp
      next
        case (2 y w3)
        have s3: "?same w3" using notify_frame [OF 2(1)] s1 by simp
        from 2(2) show ?thesis
        proof (cases rule: seq_cases)
          case (1 e)
          then show ?thesis using s3 by (simp add: lift_def)
        next
          case (2 chunks w4)
          from 2(1) have c: "split_audio_into_chunks audio 20 = Inr chunks" and w4: "w4 = w3"
            by (simp_all add: lift_def)
          from 2(2) show ?thesis
          proof (cases rule: seq_cases)
            case (1 e)
            then show ?thesis using notify_frame [OF 1(1)] s3 w4 by simp
          next
            case (2 z w5)
            have s5: "?same w5" using notify_frame [OF 2(1)] s3 w4 by simp
            from l c s5 2(2) show ?thesis by blast
          qed
        qed
      qed
    qed
  qed
qed

text \<open>
  Claim C3, as the code has it. The \<^verbatim>\<open>finally\<close> clause covers the loop and the merge,
  not what comes before \<^verbatim>\<open>try\<close>, and it is itself a call that can raise. So: when
  \<open>transcribe_large_file\<close> returns, normally or with any exception (of the callback, the
  decoder, the splitting, \<^verbatim>\<open>mkdir\<close>, the export, the transcription service or the
  deletion), and \<^verbatim>\<open>rmtree\<close> does not raise, a working directory that did not exist
  before the call does not exist, and no chunk file in it can be opened. If the directory
  is there at the return, then the call raised, and either it raised before it reached
  \<^verbatim>\<open>temp_dir.mkdir\<close> and the directory was there before the call and is as it was, or
  \<^verbatim>\<open>rmtree\<close> raised and the caller gets its exception. From \<^verbatim>\<open>mkdir\<close> on, every exit
  path on which \<^verbatim>\<open>rmtree\<close> succeeds removes the directory and everything in it.
\<close>

theorem working_directory_removed:
  assumes "transcribe_large_file E p cb w = (r, w')"
  shows "(temp_dir w = None \<and> (\<forall>d. rmtree_error E d = None) \<longrightarrow>
            temp_dir w' = None
            \<and> (\<forall>i. open_rb E (temp_file i) w' = Inl (FileNotFoundError (temp_file i))))
       \<and> (temp_dir w' \<noteq> None \<longrightarrow>
            (\<exists>e. r = Inl e
               \<and> ((temp_dir w' = temp_dir w \<and> snapshots w' = snapshots w)
                  \<or> (\<exists>d remains. rmtree_error E d = Some (e, remains)
                        \<and> temp_dir w' = Some (\<lambda>n. if remains n then d n else None)))))"
proof -
  let ?left = "\<exists>e. r = Inl e
      \<and> ((temp_dir w' = temp_dir w \<and> snapshots w' = snapshots w)
         \<or> (\<exists>d remains. rmtree_error E d = Some (e, remains)
               \<and> temp_dir w' = Some (\<lambda>n. if remains n then d n else None)))"
  have d: "temp_dir w' = None \<or> ?left"
    using transcribe_large_file_cases [OF assms]
  proof
    assume "\<exists>e. r = Inl e \<and> temp_dir w' = temp_dir w \<and> snapshots w' = snapshots w
        \<and> api_calls w' = api_calls w"
    then show ?thesis by blast
  next
    assume "\<exists>audio ext chunks w1.
            load_audio E p = Inr (audio, ext)
            \<and> split_audio_into_chunks audio 20 = Inr chunks
            \<and> temp_dir w1 = temp_dir w \<and> snapshots w1 = snapshots w
            \<and> api_calls w1 = api_calls w
            \<and> seq (mkdir E) (\<lambda>_. try_finally E (try_block E cb chunks)) w1 = (r, w')"
    then obtain chunks w1 where
      w1: "temp_dir w1 = temp_dir w" "snapshots w1 = snapshots w" and
      s: "seq (mkdir E) (\<lambda>_. try_finally E (try_block E cb chunks)) w1 = (r, w')"
      by blast
    from s show ?thesis
    proof (cases rule: seq_cases)
      case (1 e)
      from mkdir_cases [OF 1(1)] have "w' = w1" by simp
      with 1(2) w1 show ?thesis by simp
    next
      case (2 x w2)
      from try_finally_cases [OF 2(2)] show ?thesis
      proof (elim disjE exE conjE)
        assume "temp_dir w' = None"
        then show ?thesis by simp
      next
        assume "temp_dir w' = None"
        then show ?thesis by simp
      next
        fix w0 d e remains
        assume f: "rmtree_error E d = Some (e, remains)" "r = Inl e"
          "w' = set_temp_dir (Some (\<lambda>n. if remains n then d n else None)) w0"
        have "temp_dir w' = Some (\<lambda>n. if remains n then d n else None)"
          by (simp add: f(3) set_temp_dir_def)
        with f(1,2) show ?thesis by blast
      qed
    qed
  qed
  have o: "temp_dir w' = None \<Longrightarrow>
      \<forall>i. open_rb E (temp_file i) w' = Inl (FileNotFoundError (temp_file i))"
    by (simp add: open_rb_temp_file)
  have a: "temp_dir w' = None" if "temp_dir w = None" and "\<forall>d. rmtree_error E d = None"
    using d that by auto
  have b: "?left" if "temp_dir w' \<noteq> None"
    using d that by blast
  from a b o show ?thesis by blast
qed

text \<open>
  The witness runs the pipeline on an audio of three chunks whose second transcription
  call fails: the call returns that failure, and the directory and the files of chunks 1
  and 2 are gone though chunk 3 was never processed. It also runs it with a directory
  left over from before and a decoder that fails.
\<close>

theorem working_directory_removed_witness:
  "fst (transcribe_large_file
     \<lparr>getsize = (\<lambda>p. Inr 60000000), read_file = (\<lambda>p. Inr p),
      from_file = (\<lambda>p f. Inr \<lparr>frame_rate = 10485760000, frame_width = 1, channels = 1,
                              millis = ''abcde''\<rparr>),
      export_mp3 = (\<lambda>c. Inr (millis c)),
      transcriptions_create = (\<lambda>n c. if n = 1 then Inl (APIError ''rate limit'') else Inr c),
      format_mb = (\<lambda>n. ''57.22''),
      mkdir_error = None, unlink_error = (\<lambda>n. None), rmtree_error = (\<lambda>d. None)\<rparr> ''in.mp3'' None
     \<lparr>temp_dir = None, api_calls = 0, observer = (), snapshots = []\<rparr>)
     = Inl (APIError ''rate limit'')
   \<and> temp_dir (snd (transcribe_large_file
     \<lparr>getsize = (\<lambda>p. Inr 60000000), read_file = (\<lambda>p. Inr p),
      from_file = (\<lambda>p f. Inr \<lparr>frame_rate = 10485760000, frame_width = 1, channels = 1,
                              millis = ''abcde''\<rparr>),
      export_mp3 = (\<lambda>c. Inr (millis c)),
      transcriptions_create = (\<lambda>n c. if n = 1 then Inl (APIError ''rate limit'') else Inr c),
      format_mb = (\<lambda>n. ''57.22''),
      mkdir_error = None, unlink_error = (\<lambda>n. None), rmtree_error = (\<lambda>d. None)\<rparr> ''in.mp3'' None
     \<lparr>temp_dir = None, api_calls = 0, observer = (), snapshots = []\<rparr>)) = None
   \<and> (\<exists>e. fst (transcribe_large_file
     \<lparr>getsize = (\<lambda>p. Inr 60000000), read_file = (\<lambda>p. Inr p),
      from_file = (\<lambda>p f. Inl (CouldntDecodeError ''Decoding failed'')),
      export_mp3 = (\<lambda>c. Inr (millis c :: string)),
      transcriptions_create = (\<lambda>n c. Inr c),
      format_mb = (\<lambda>n. ''57.22''),
      mkdir_error = None, unlink_error = (\<lambda>n. None), rmtree_error = (\<lambda>d. None)\<rparr> ''in.mp3'' None
     \<lparr>temp_dir = Some (\<lambda>n. None), api_calls = 0, observer = (), snapshots = []\<rparr>) = Inl e)"
proof -
  let ?E = "\<lparr>getsize = (\<lambda>p. Inr 60000000), read_file = (\<lambda>p. Inr p),
      from_file = (\<lambda>p f. Inr \<lparr>frame_rate = 10485760000, frame_width = 1, channels = 1,
                              millis = ''abcde''\<rparr>),
      export_mp3 = (\<lambda>c. Inr (millis c)),
      transcriptions_create = (\<lambda>n c. if n = 1 then Inl (APIError ''rate limit'') else Inr c),
      format_mb = (\<lambda>n. ''57.22''),
      mkdir_error = None, unlink_error = (\<lambda>n. None), rmtree_error = (\<lambda>d. None)\<rparr> :: (char, string) env"
  let ?w = "\<lparr>temp_dir = None, api_calls = 0, observer = (), snapshots = []\<rparr>
      :: (string, unit) world"
  let ?F = "\<lparr>getsize = (\<lambda>p. Inr 60000000), read_file = (\<lambda>p. Inr p),
      from_file = (\<lambda>p f. Inl (CouldntDecodeError ''Decoding failed'')),
      export_mp3 = (\<lambda>c. Inr (millis c :: string)),
      transcriptions_create = (\<lambda>n c. Inr c),
      format_mb = (\<lambda>n. ''57.22''),
      mkdir_error = None, unlink_error = (\<lambda>n. None), rmtree_error = (\<lambda>d. None)\<rparr> :: (char, string) env"
  let ?v = "\<lparr>temp_dir = Some (\<lambda>n. None), api_calls = 0, observer = (), snapshots = []\<rparr>
      :: (string, unit) world"
  let ?X = "transcribe_large_file ?E ''in.mp3'' None ?w"
  let ?Y = "transcribe_large_file ?F ''in.mp3'' None ?v"
  have r: "fst ?X = Inl (APIError ''rate limit'')" by code_simp
  have x: "?X = (fst ?X, snd ?X)" by simp
  have "temp_dir ?w = None \<and> (\<forall>d. rmtree_error ?E d = None)" by simp
  with working_directory_removed [OF x] have t: "temp_dir (snd ?X) = None" by blast
  have y: "?Y = (fst ?Y, snd ?Y)" by simp
  have "temp_dir (snd ?Y) \<noteq> None"
    by (simp add: transcribe_large_file_def seq_def notify_None lift_def load_audio_def)
  with working_directory_removed [OF y] have "\<exists>e. fst ?Y = Inl e" by blast
  with r t show ?thesis by blast
qed

text \<open>
  Claim C3 as stated fails on two exit paths. First, a working directory left over from
  an interrupted run, holding \<^verbatim>\<open>chunk_0.mp3\<close>, and an input the decoder rejects: the
  call raises before \<^verbatim>\<open>try\<close>, and the directory and the file are still there. Second,
  no directory before the call, the transcription of the first chunk fails and then
  \<^verbatim>\<open>rmtree\<close> fails without removing anything: the caller gets the exception of
  \<^verbatim>\<open>rmtree\<close>, and the directory and the chunk file are still there.
\<close>

theorem working_directory_left_counterexample:
  "fst (transcribe_large_file
     \<lparr>getsize = (\<lambda>p. Inr 60000000), read_file = (\<lambda>p. Inr p),
      from_file = (\<lambda>p f. Inl (CouldntDecodeError ''Decoding failed'')),
      export_mp3 = (\<lambda>c. Inr (millis c :: string)),
      transcriptions_create = (\<lambda>n c. Inr c),
      format_mb = (\<lambda>n. ''57.22''),
      mkdir_error = None, unlink_error = (\<lambda>n. None), rmtree_error = (\<lambda>d. None)\<rparr> ''in.mp3'' None
     \<lparr>temp_dir = Some [''chunk_0.mp3'' \<mapsto> ''old''], api_calls = 0, observer = (),
      snapshots = []\<rparr>)
     = Inl (CouldntDecodeError ''Decoding failed'')
   \<and> open_rb
     \<lparr>getsize = (\<lambda>p. Inr 60000000), read_file = (\<lambda>p. Inr p),
      from_file = (\<lambda>p f. Inl (CouldntDecodeError ''Decoding failed'')),
      export_mp3 = (\<lambda>c. Inr (millis c :: string)),
      transcriptions_create = (\<lambda>n c. Inr c),
      format_mb = (\<lambda>n. ''57.22''),
      mkdir_error = None, unlink_error = (\<lambda>n. None), rmtree_error = (\<lambda>d. None)\<rparr>
     ''temp_audio_chunks/chunk_0.mp3''
     (snd (transcribe_large_file
     \<lparr>getsize = (\<lambda>p. Inr 60000000), read_file = (\<lambda>p. Inr p),
      from_file = (\<lambda>p f. Inl (CouldntDecodeError ''Decoding failed'')),
      export_mp3 = (\<lambda>c. Inr (millis c :: string)),
      transcriptions_create = (\<lambda>n c. Inr c),
      format_mb = (\<lambda>n. ''57.22''),
      mkdir_error = None, unlink_error = (\<lambda>n. None), rmtree_error = (\<lambda>d. None)\<rparr> ''in.mp3'' None
     \<lparr>temp_dir = Some [''chunk_0.mp3'' \<mapsto> ''old''], api_calls = 0, observer = (),
      snapshots = []\<rparr>))
     = Inr ''old''
   \<and> fst (transcribe_large_file
     \<lparr>getsize = (\<lambda>p. Inr 60000000), read_file = (\<lambda>p. Inr p),
      from_file = (\<lambda>p f. Inr \<lparr>frame_rate = 10485760000, frame_width = 1, channels = 1,
                              millis = ''abcde''\<rparr>),
      export_mp3 = (\<lambda>c. Inr (millis c)),
      transcriptions_create = (\<lambda>n c. Inl (APIError ''rate limit'')),
      format_mb = (\<lambda>n. ''57.22''),
      mkdir_error = None, unlink_error = (\<lambda>n. None),
      rmtree_error = (\<lambda>d. Some (OSError ''Permission denied'', \<lambda>n. True))\<rparr> ''in.mp3'' None
     \<lparr>temp_dir = None, api_calls = 0, observer = (), snapshots = []\<rparr>)
     = Inl (OSError ''Permission denied'')
   \<and> open_rb
     \<lparr>getsize = (\<lambda>p. Inr 60000000), read_file = (\<lambda>p. Inr p),
      from_file = (\<lambda>p f. Inr \<lparr>frame_rate = 10485760000, frame_width = 1, channels = 1,
                              millis = ''abcde''\<rparr>),
      export_mp3 = (\<lambda>c. Inr (millis c)),
      transcriptions_create = (\<lambda>n c. Inl (APIError ''rate limit'')),
      format_mb = (\<lambda>n. ''57.22''),
      mkdir_error = None, unlink_error = (\<lambda>n. None),
      rmtree_error = (\<lambda>d. Some (OSError ''Permission denied'', \<lambda>n. True))\<rparr>
     ''temp_audio_chunks/chunk_0.mp3''
     (snd (transcribe_large_file
     \<lparr>getsize = (\<lambda>p. Inr 60000000), read_file = (\<lambda>p. Inr p),
      from_file = (\<lambda>p f. Inr \<lparr>frame_rate = 10485760000, frame_width = 1, channels = 1,
                              millis = ''abcde''\<rparr>),
      export_mp3 = (\<lambda>c. Inr (millis c)),
      transcriptions_create = (\<lambda>n c. Inl (APIError ''rate limit'')),
      format_mb = (\<lambda>n. ''57.22''),
      mkdir_error = None, unlink_error = (\<lambda>n. None),
      rmtree_error = (\<lambda>d. Some (OSError ''Permission denied'', \<lambda>n. True))\<rparr> ''in.mp3'' None
     \<lparr>temp_dir = None, api_calls = 0, observer = (), snapshots = []\<rparr>))
     = Inr ''ab''"
  by code_simp

subsection \<open>One chunk file at a time\<close>


















subsection \<open>Transcribing the chunks and merging\<close>

lemma export_Inr:
  assumes "export E chunk i w = (Inr x, w')"
  shows "\<exists>d c. temp_dir w = Some d \<and> export_mp3 E chunk = Inr c
           \<and> temp_dir w' = Some (d(chunk_name i \<mapsto> c)) \<and> api_calls w' = api_calls w"
  using assms
  by (auto simp: export_def set_temp_dir_def split: option.splits sum.splits prod.splits)

lemma transcribe_file_temp_file:
  assumes "transcribe_file E (temp_file i) w = (Inr t, w')"
    and "temp_dir w = Some d" and "d (chunk_name i) = Some c"
  shows "transcriptions_create E (api_calls w) c = Inr t \<and> api_calls w' = Suc (api_calls w)"
  using assms by (auto simp: transcribe_file_def open_rb_temp_file)

lemma unlink_api_calls:
  assumes "unlink E i w = (r, w')"
  shows "api_calls w' = api_calls w"
  using assms by (auto simp: unlink_def set_temp_dir_def split: option.splits)

lemma process_chunk_Inr:
  assumes "process_chunk E cb n i chunk w = (Inr t, w')"
  shows "\<exists>c. export_mp3 E chunk = Inr c
           \<and> transcriptions_create E (api_calls w) c = Inr t
           \<and> api_calls w' = Suc (api_calls w)"
proof -
  note a = assms [unfolded process_chunk_def]
  from a obtain x w1 where n1: "notify cb
        (''Processing chunk '' @ str_nat (i + 1) @ ''/'' @ str_nat n @ ''...'') w = (Inr x, w1)"
    and b: "seq (export E chunk i) (\<lambda>_.
          seq (transcribe_file E (temp_file i)) (\<lambda>chunk_transcript.
          seq (unlink E i) (\<lambda>_.
          seq (notify cb (''Chunk '' @ str_nat (i + 1) @ ''/'' @ str_nat n @ '' completed''))
            (\<lambda>_. ret chunk_transcript)))) w1 = (Inr t, w')"
    by (cases rule: seq_cases) auto
  have c1: "api_calls w1 = api_calls w" using notify_frame [OF n1] by simp
  from b obtain y w2 where ex: "export E chunk i w1 = (Inr y, w2)"
    and c: "seq (transcribe_file E (temp_file i)) (\<lambda>chunk_transcript.
          seq (unlink E i) (\<lambda>_.
          seq (notify cb (''Chunk '' @ str_nat (i + 1) @ ''/'' @ str_nat n @ '' completed''))
            (\<lambda>_. ret chunk_transcript))) w2 = (Inr t, w')"
    by (cases rule: seq_cases) auto
  from export_Inr [OF ex] obtain d c where
    e: "export_mp3 E chunk = Inr c" "temp_dir w2 = Some (d(chunk_name i \<mapsto> c))"
      "api_calls w2 = api_calls w1"
    by blast
  from c obtain t' w3 where tf: "transcribe_file E (temp_file i) w2 = (Inr t', w3)"
    and u: "seq (unlink E i) (\<lambda>_.
          seq (notify cb (''Chunk '' @ str_nat (i + 1) @ ''/'' @ str_nat n @ '' completed''))
            (\<lambda>_. ret t')) w3 = (Inr t, w')"
    by (cases rule: seq_cases) auto
  have tc: "transcriptions_create E (api_calls w2) c = Inr t'"
    and c3: "api_calls w3 = Suc (api_calls w2)"
    using transcribe_file_temp_file [OF tf e(2)] by simp_all
  from u obtain z w4 where ul: "unlink E i w3 = (Inr z, w4)"
    and v: "seq (notify cb (''Chunk '' @ str_nat (i + 1) @ ''/'' @ str_nat n @ '' completed''))
            (\<lambda>_. ret t') w4 = (Inr t, w')"
    by (cases rule: seq_cases) auto
  have c4: "api_calls w4 = api_calls w3" by (rule unlink_api_calls [OF ul])
  from v obtain q w5 where n2: "notify cb
        (''Chunk '' @ str_nat (i + 1) @ ''/'' @ str_nat n @ '' completed'') w4 = (Inr q, w5)"
    and rt: "ret t' w5 = (Inr t, w')"
    by (cases rule: seq_cases) auto
  have c5: "api_calls w5 = api_calls w4" using notify_frame [OF n2] by simp
  from rt have "t' = t" "w' = w5" by (simp_all add: ret_def)
  with e(1) tc c1 e(3) c3 c4 c5 show ?thesis by simp
qed

lemma chunk_loop_Inr:
  assumes "chunk_loop E cb n i chunks transcripts w = (Inr result, w')"
  shows "\<exists>texts. result = transcripts @ texts \<and> length texts = length chunks
           \<and> (\<forall>k < length chunks. \<exists>c. export_mp3 E (chunks ! k) = Inr c
                 \<and> transcriptions_create E (api_calls w + k) c = Inr (texts ! k))
           \<and> api_calls w' = api_calls w + length chunks"
  using assms
proof (induction chunks arbitrary: i transcripts w)
  case Nil
  then show ?case by simp
next
  case (Cons chunk chunks)
  obtain r1 w1 where p: "process_chunk E cb n i chunk w = (r1, w1)"
    by (cases "process_chunk E cb n i chunk w")
  from Cons.prems p obtain t where r1: "r1 = Inr t"
    and l: "chunk_loop E cb n (Suc i) chunks (transcripts @ [t]) w1 = (Inr result, w')"
    by (cases r1) auto
  from process_chunk_Inr [OF p [unfolded r1]] obtain c where
    c: "export_mp3 E chunk = Inr c" "transcriptions_create E (api_calls w) c = Inr t"
      "api_calls w1 = Suc (api_calls w)"
    by blast
  from Cons.IH [OF l] obtain texts where
    t: "result = (transcripts @ [t]) @ texts" "length texts = length chunks"
      "\<forall>k < length chunks. \<exists>c. export_mp3 E (chunks ! k) = Inr c
          \<and> transcriptions_create E (api_calls w1 + k) c = Inr (texts ! k)"
      "api_calls w' = api_calls w1 + length chunks"
    by blast
  have "\<exists>c'. export_mp3 E ((chunk # chunks) ! k) = Inr c'
          \<and> transcriptions_create E (api_calls w + k) c' = Inr ((t # texts) ! k)"
    if "k < length (chunk # chunks)" for k
  proof (cases k)
    case 0
    then show ?thesis using c by simp
  next
    case (Suc m)
    then show ?thesis using that t(3) c(3) by simp
  qed
  then show ?case
    using t c(3) by (intro exI [of _ "t # texts"]) simp
qed

lemma str_join_closed_form:
  "str_join sep xs = (case xs of [] \<Rightarrow> [] | x # rest \<Rightarrow> x @ concat (map (\<lambda>y. sep @ y) rest))"
  by (induction sep xs rule: str_join.induct) simp_all

text \<open>
  Claim C5. When \<open>transcribe_large_file\<close> returns a transcript, the audio was split into
  chunks, chunk \<open>k\<close> was encoded and sent as the \<open>k\<close>-th call of the run, and the transcript
  is the answers joined in that order, with one space between neighbours: the first
  answer, then each later one after one space. Merging a single text returns it as it
  is, and the texts a, b, c give \<^verbatim>\<open>a b c\<close>.
\<close>

theorem merge_in_chunk_order:
  "(transcribe_large_file E p cb w = (Inr transcript, w') \<longrightarrow>
      (\<exists>audio ext chunks texts.
          load_audio E p = Inr (audio, ext)
          \<and> split_audio_into_chunks audio 20 = Inr chunks
          \<and> length texts = length chunks
          \<and> (\<forall>k < length chunks. \<exists>c. export_mp3 E (chunks ! k) = Inr c
                \<and> transcriptions_create E (api_calls w + k) c = Inr (texts ! k))
          \<and> transcript = str_join '' '' texts))
   \<and> str_join '' '' xs
        = (case xs of [] \<Rightarrow> [] | x # rest \<Rightarrow> x @ concat (map (\<lambda>y. '' '' @ y) rest))
   \<and> str_join '' '' [x] = x
   \<and> str_join '' '' [''a'', ''b'', ''c''] = ''a b c''"
proof (intro conjI impI)
  assume a: "transcribe_large_file E p cb w = (Inr transcript, w')"
  from transcribe_large_file_cases [OF a] obtain audio ext chunks w1 where
    l: "load_audio E p = Inr (audio, ext)"
    and c: "split_audio_into_chunks audio 20 = Inr chunks"
    and w1: "api_calls w1 = api_calls w"
    and s: "seq (mkdir E) (\<lambda>_. try_finally E (try_block E cb chunks)) w1 = (Inr transcript, w')"
    by auto
  from s obtain x w2 where m: "mkdir E w1 = (Inr x, w2)"
    and f: "try_finally E (try_block E cb chunks) w2 = (Inr transcript, w')"
    by (cases rule: seq_cases) simp_all
  have c2: "api_calls w2 = api_calls w"
    using mkdir_cases [OF m] w1 by simp
  from try_finally_cases [OF f] obtain w3 where
    b: "try_block E cb chunks w2 = (Inr transcript, w3)"
    by auto
  note b' = b [unfolded try_block_def]
  from b' obtain ts w4 where
    lp: "chunk_loop E cb (length chunks) 0 chunks [] w2 = (Inr ts, w4)"
    and k: "seq (notify cb ''Merging transcripts...'') (\<lambda>_. ret (str_join '' '' ts)) w4
        = (Inr transcript, w3)"
    by (cases rule: seq_cases) auto
  from k have j: "transcript = str_join '' '' ts"
    by (cases rule: seq_cases) (auto simp: ret_def)
  from chunk_loop_Inr [OF lp] c2 have
    "length ts = length chunks
     \<and> (\<forall>k < length chunks. \<exists>c. export_mp3 E (chunks ! k) = Inr c
           \<and> transcriptions_create E (api_calls w + k) c = Inr (ts ! k))"
    by auto
  with l c j show "\<exists>audio ext chunks texts.
          load_audio E p = Inr (audio, ext)
          \<and> split_audio_into_chunks audio 20 = Inr chunks
          \<and> length texts = length chunks
          \<and> (\<forall>k < length chunks. \<exists>c. export_mp3 E (chunks ! k) = Inr c
                \<and> transcriptions_create E (api_calls w + k) c = Inr (texts ! k))
          \<and> transcript = str_join '' '' texts"
    by blast
next
  show "str_join '' '' xs
        = (case xs of [] \<Rightarrow> [] | x # rest \<Rightarrow> x @ concat (map (\<lambda>y. '' '' @ y) rest))"
    by (rule str_join_closed_form)
next
  show "str_join '' '' [x] = x" by simp
next
  show "str_join '' '' [''a'', ''b'', ''c''] = ''a b c''" by simp
qed

theorem merge_in_chunk_order_witness:
  "fst (transcribe_large_file
     \<lparr>getsize = (\<lambda>p. Inr 60000000), read_file = (\<lambda>p. Inr p),
      from_file = (\<lambda>p f. Inr \<lparr>frame_rate = 10485760000, frame_width = 1, channels = 1,
                              millis = ''abcde''\<rparr>),
      export_mp3 = (\<lambda>c. Inr (millis c)),
      transcriptions_create = (\<lambda>n c. Inr (str_nat n @ '':'' @ c)),
      format_mb = (\<lambda>n. ''57.22''),
      mkdir_error = None, unlink_error = (\<lambda>n. None), rmtree_error = (\<lambda>d. None)\<rparr> ''in.mp3'' None
     \<lparr>temp_dir = None, api_calls = 7, observer = (), snapshots = []\<rparr>)
     = Inr ''7:ab 8:cd 9:e''
   \<and> (\<exists>texts. length texts = 3 \<and> ''7:ab 8:cd 9:e'' = str_join '' '' texts
        \<and> texts ! 0 = ''7:ab'' \<and> texts ! 1 = ''8:cd'' \<and> texts ! 2 = ''9:e'')"
proof -
  let ?E = "\<lparr>getsize = (\<lambda>p. Inr 60000000), read_file = (\<lambda>p. Inr p),
      from_file = (\<lambda>p f. Inr \<lparr>frame_rate = 10485760000, frame_width = 1, channels = 1,
                              millis = ''abcde''\<rparr>),
      export_mp3 = (\<lambda>c. Inr (millis c)),
      transcriptions_create = (\<lambda>n c. Inr (str_nat n @ '':'' @ c)),
      format_mb = (\<lambda>n. ''57.22''),
      mkdir_error = None, unlink_error = (\<lambda>n. None), rmtree_error = (\<lambda>d. None)\<rparr> :: (char, string) env"
  let ?w = "\<lparr>temp_dir = None, api_calls = 7, observer = (), snapshots = []\<rparr>
      :: (string, unit) world"
  let ?X = "transcribe_large_file ?E ''in.mp3'' None ?w"
  let ?A = "\<lparr>frame_rate = 10485760000, frame_width = 1, channels = 1, millis = ''abcde''\<rparr>"
  have r: "fst ?X = Inr ''7:ab 8:cd 9:e''" by code_simp
  have x: "?X = (Inr ''7:ab 8:cd 9:e'', snd ?X)"
    using r by (metis prod.collapse)
  have la: "load_audio ?E ''in.mp3'' = Inr (?A, ''mp3'')" by code_simp
  have sp: "split_audio_into_chunks ?A 20
      = Inr [?A\<lparr>millis := ''ab''\<rparr>, ?A\<lparr>millis := ''cd''\<rparr>, ?A\<lparr>millis := ''e''\<rparr>]"
    by code_simp
  from merge_in_chunk_order [of ?E "''in.mp3''" None ?w "''7:ab 8:cd 9:e''" "snd ?X"] x
  obtain audio ext chunks texts where
    m: "load_audio ?E ''in.mp3'' = Inr (audio, ext)"
      "split_audio_into_chunks audio 20 = Inr chunks"
      "length texts = length chunks"
      "\<forall>k < length chunks. \<exists>c. export_mp3 ?E (chunks ! k) = Inr c
          \<and> transcriptions_create ?E (api_calls ?w + k) c = Inr (texts ! k)"
      "''7:ab 8:cd 9:e'' = str_join '' '' texts"
    by blast
  from m(1) la have au: "audio = ?A" by simp
  from m(2) sp au have ch: "map millis chunks = [''ab'', ''cd'', ''e'']" by auto
  then have len: "length chunks = 3" by (metis length_map length_Cons list.size(3) numeral_3_eq_3)
  have "texts ! k = str_nat (7 + k) @ '':'' @ [''ab'', ''cd'', ''e''] ! k" if "k < 3" for k
  proof -
    from that len m(4) obtain c where
      c: "export_mp3 ?E (chunks ! k) = Inr c"
        "transcriptions_create ?E (api_calls ?w + k) c = Inr (texts ! k)"
      by auto
    have "millis (chunks ! k) = [''ab'', ''cd'', ''e''] ! k"
      using ch that len by (metis nth_map)
    with c show ?thesis by simp
  qed
  note t = this
  have "texts ! 0 = ''7:ab''" "texts ! 1 = ''8:cd''" "texts ! 2 = ''9:e''"
    using t [of 0] t [of 1] t [of 2] by (simp_all add: str_nat.simps digit_def)
  with m(3) m(5) len r show ?thesis by auto
qed

subsection \<open>Audio of zero duration\<close>

lemma make_chunks_empty:
  assumes "len audio = 0" and "L \<noteq> 0"
  shows "make_chunks audio L = Inr []"
  using assms by (simp add: make_chunks_def)

lemma notify_quiet_fst: "fst (notify (quiet h) message w) = Inr ()"
  by (simp add: notify_quiet)

lemma notify_quiet_frame:
  "temp_dir (snd (notify (quiet h) message w)) = temp_dir w
   \<and> api_calls (snd (notify (quiet h) message w)) = api_calls w
   \<and> snapshots (snd (notify (quiet h) message w)) = snapshots w"
  by (simp add: notify_quiet)

text \<open>
  Claim C6, as the code has it. For an audio of zero duration whose chunk length is
  computed and is not 0, the split gives the empty sequence of chunks, and the pipeline,
  with no callback or one that returns normally, makes no transcription call. When
  creating and removing the working directory succeed, it removes the working directory
  and returns the empty string as the transcript. It can fail only there, in
  \<^verbatim>\<open>mkdir\<close> or in \<^verbatim>\<open>rmtree\<close>: the program has no exception for an empty audio.
\<close>

theorem zero_duration_empty_transcript:
  assumes "load_audio E p = Inr (audio, ext)" and "len audio = 0"
    and "chunk_length_ms audio 20 = Inr L" and "L \<noteq> 0"
  shows "split_audio_into_chunks audio 20 = Inr []
       \<and> api_calls (snd (transcribe_large_file E p (quiet h) w)) = api_calls w
       \<and> ((temp_dir w = None \<longrightarrow> mkdir_error E = None) \<and> (\<forall>d. rmtree_error E d = None) \<longrightarrow>
            fst (transcribe_large_file E p (quiet h) w) = Inr []
            \<and> temp_dir (snd (transcribe_large_file E p (quiet h) w)) = None)
       \<and> (\<forall>e. fst (transcribe_large_file E p (quiet h) w) = Inl e \<longrightarrow>
            (temp_dir w = None \<and> mkdir_error E = Some e)
            \<or> (\<exists>d remains. rmtree_error E d = Some (e, remains)))"
proof -
  have s: "split_audio_into_chunks audio 20 = Inr []"
    using assms(2,3,4) by (simp add: split_audio_into_chunks_def make_chunks_empty)
  obtain r w' where x: "transcribe_large_file E p (quiet h) w = (r, w')"
    by (cases "transcribe_large_file E p (quiet h) w")
  have b: "try_block E (quiet h) [] v
      = (Inr [], snd (notify (quiet h) ''Merging transcripts...'' v))" for v :: "('b, 'c) world"
    by (simp add: try_block_def seq_def ret_def notify_quiet)
  have nq: "seq (notify (quiet h) msg) g v = g () (snd (notify (quiet h) msg v))"
    for msg g and v :: "('b, 'c) world"
    by (simp add: seq_def notify_quiet)
  have li: "seq (lift (Inr x)) g v = g x v" for x g and v :: "('b, 'c) world"
    by (simp add: seq_def lift_def)
  define w1 where "w1 = snd (notify (quiet h) ''Loading audio file...'' w)"
  define w2 where "w2 = snd (notify (quiet h) ''Splitting audio into chunks...'' w1)"
  define w3 where
    "w3 = snd (notify (quiet h) (''Audio split into '' @ str_nat 0 @ '' chunks'') w2)"
  have w3: "temp_dir w3 = temp_dir w" "api_calls w3 = api_calls w"
    by (simp_all add: w3_def w2_def w1_def notify_quiet_frame)
  have "transcribe_large_file E p (quiet h) w
      = seq (mkdir E) (\<lambda>_. try_finally E (try_block E (quiet h) [])) w3"
    by (simp add: transcribe_large_file_def nq li assms(1) s w1_def w2_def w3_def)
  with x have e: "seq (mkdir E) (\<lambda>_. try_finally E (try_block E (quiet h) [])) w3 = (r, w')"
    by simp
  let ?ok = "(temp_dir w = None \<longrightarrow> mkdir_error E = None) \<and> (\<forall>d. rmtree_error E d = None)"
  have "api_calls w' = api_calls w
      \<and> (?ok \<longrightarrow> r = Inr [] \<and> temp_dir w' = None)
      \<and> (\<forall>e. r = Inl e \<longrightarrow>
            (temp_dir w = None \<and> mkdir_error E = Some e)
            \<or> (\<exists>d remains. rmtree_error E d = Some (e, remains)))"
    using e
  proof (cases rule: seq_cases)
    case (1 e)
    from mkdir_cases [OF 1(1)] have "w' = w3" "temp_dir w3 = None" "mkdir_error E = Some e"
      by simp_all
    then show ?thesis using 1(2) w3 by simp
  next
    case (2 u w4)
    have c4: "api_calls w4 = api_calls w" using mkdir_cases [OF 2(1)] w3(2) by simp
    define w5 where "w5 = snd (notify (quiet h) ''Merging transcripts...'' w4)"
    have b5: "try_block E (quiet h) [] w4 = (Inr [], w5)" by (simp add: b w5_def)
    have c5: "api_calls w5 = api_calls w" by (simp add: w5_def notify_quiet_frame c4)
    from try_finally_cases [OF 2(2)]
    consider (removed) "r = Inr []" "temp_dir w' = None" "api_calls w' = api_calls w5"
      | (failed) d e remains where "rmtree_error E d = Some (e, remains)" "r = Inl e"
          "w' = set_temp_dir (Some (\<lambda>n. if remains n then d n else None)) w5"
      using b5 by auto
    then show ?thesis
    proof cases
      case removed
      then show ?thesis using c5 by simp
    next
      case failed
      have "api_calls w' = api_calls w" using failed(3) c5 by (simp add: set_temp_dir_def)
      moreover have "\<not> (\<forall>d. rmtree_error E d = None)" using failed(1) by auto
      ultimately show ?thesis using failed(1,2) by blast
    qed
  qed
  then show ?thesis using s by (simp add: x)
qed

theorem zero_duration_empty_transcript_witness:
  "split_audio_into_chunks
     \<lparr>frame_rate = 44100, frame_width = 4, channels = 2, millis = ([] :: string)\<rparr> 20 = Inr []
   \<and> fst (transcribe_large_file
     \<lparr>getsize = (\<lambda>p. Inr 60000000), read_file = (\<lambda>p. Inr p),
      from_file = (\<lambda>p f. Inr \<lparr>frame_rate = 44100, frame_width = 4, channels = 2,
                              millis = ([] :: string)\<rparr>),
      export_mp3 = (\<lambda>c. Inr (millis c)), transcriptions_create = (\<lambda>n c. Inr c),
      format_mb = (\<lambda>n. ''57.22''),
      mkdir_error = None, unlink_error = (\<lambda>n. None), rmtree_error = (\<lambda>d. None)\<rparr> ''silence.wav'' (quiet (Some (\<lambda>m u. u @ [m])))
     \<lparr>temp_dir = None, api_calls = 0, observer = [], snapshots = []\<rparr>) = Inr []"
proof -
  let ?A = "\<lparr>frame_rate = 44100, frame_width = 4, channels = 2, millis = ([] :: string)\<rparr>"
  let ?E = "\<lparr>getsize = (\<lambda>p. Inr 60000000), read_file = (\<lambda>p. Inr p),
      from_file = (\<lambda>p f. Inr \<lparr>frame_rate = 44100, frame_width = 4, channels = 2,
                              millis = ([] :: string)\<rparr>),
      export_mp3 = (\<lambda>c. Inr (millis c)), transcriptions_create = (\<lambda>n c. Inr c),
      format_mb = (\<lambda>n. ''57.22''),
      mkdir_error = None, unlink_error = (\<lambda>n. None), rmtree_error = (\<lambda>d. None)\<rparr> :: (char, string) env"
  have h1: "load_audio ?E ''silence.wav'' = Inr (?A, ''wav'')" by code_simp
  have h2: "len ?A = 0" by (simp add: len_def)
  have h3: "chunk_length_ms ?A 20 = Inr 59443"
    by (simp add: chunk_length_ms_def int_truediv_def bitrate_def)
  have h4: "(59443 :: int) \<noteq> 0" by simp
  have h5: "mkdir_error ?E = None \<and> (\<forall>d. rmtree_error ?E d = None)" by simp
  from zero_duration_empty_transcript [OF h1 h2 h3 h4,
        of "Some (\<lambda>m u. u @ [m])"
           "\<lparr>temp_dir = None, api_calls = 0, observer = [], snapshots = []\<rparr>"] h5
  show ?thesis by simp
qed

text \<open>
  Claim C6 as stated fails: on a decoded audio of zero duration the pipeline returns a
  transcript, the empty string, and raises nothing.
\<close>

theorem zero_duration_counterexample:
  "fst (transcribe_large_file
     \<lparr>getsize = (\<lambda>p. Inr 60000000), read_file = (\<lambda>p. Inr p),
      from_file = (\<lambda>p f. Inr \<lparr>frame_rate = 44100, frame_width = 4, channels = 2,
                              millis = ([] :: string)\<rparr>),
      export_mp3 = (\<lambda>c. Inr (millis c)), transcriptions_create = (\<lambda>n c. Inr c),
      format_mb = (\<lambda>n. ''57.22''),
      mkdir_error = None, unlink_error = (\<lambda>n. None), rmtree_error = (\<lambda>d. None)\<rparr> ''silence.wav'' None
     \<lparr>temp_dir = None, api_calls = 0, observer = (), snapshots = []\<rparr>) = Inr ''''"
  by code_simp

subsection \<open>The progress observer\<close>























end
